theory Spec2Isabelle
  imports Complex_Main "HOL-Library.AList"
begin

section \<open>Python values\<close>

text \<open>
  The request body of the order application is a JSON object, so every field the handlers
  read is a JSON value as Python's \<open>json\<close> module decodes it: \<open>None\<close>, a \<open>bool\<close>, an
  \<open>int\<close> (unbounded), a \<open>float\<close>, a \<open>str\<close>, a \<open>list\<close> or a \<open>dict\<close>. Floats are kept
  abstract (the type parameter \<open>'f\<close>): what the handlers and the database need of them is
  supplied by the runtime record below. A float stands for its value, so the two zeros,
  which neither \<open>==\<close> nor the database tells apart, are one float. Strings are \<open>string\<close>,
  i.e. lists of 8-bit characters, standing for text that can be encoded.
\<close>

datatype 'f json =
    JNull
  | JBool bool
  | JInt int
  | JFloat 'f
  | JStr string
  | JArr "'f json list"
  | JObj "(string \<times> 'f json) list"

text \<open>
  The exceptions the handlers can end with. \<open>KeyError\<close>, \<open>ValueError\<close>, \<open>TypeError\<close> and
  \<open>OverflowError\<close> are Python's. \<open>StatementError\<close> is SQLAlchemy's exception for a
  parameter that the bind processor of its column cannot convert, \<open>ProgrammingError\<close> its
  exception for a parameter of a type the \<open>sqlite3\<close> driver cannot bind, and
  \<open>IntegrityError\<close> its exception for a violated table constraint (UNIQUE, NOT NULL).
  \<open>NotFound\<close> is the exception behind \<open>get_or_404\<close>.
\<close>

datatype error =
    KeyError string
  | ValueError
  | TypeError
  | OverflowError
  | StatementError
  | ProgrammingError
  | IntegrityError
  | NotFound

text \<open>
  What the model takes from the platform the application runs on:
  \<^item> \<open>float_mul\<close>: the product of two floats;
  \<^item> \<open>float_of_int\<close>: \<open>float(n)\<close>, the conversion of an \<open>int\<close>, \<open>None\<close> when Python raises
    \<open>OverflowError\<close> (int too large to convert to float);
  \<^item> \<open>float_of_str\<close>: \<open>float(s)\<close>, \<open>None\<close> when Python raises \<open>ValueError\<close>;
  \<^item> \<open>float_to_int\<close>: the \<open>int\<close> a float is equal to, \<open>None\<close> for a float with a
    fractional part, an infinity and NaN;
  \<^item> \<open>float_is_zero\<close>: whether a float is falsy; \<open>float_is_nan\<close>: whether it is NaN;
  \<^item> \<open>float_text\<close>: the text SQLite stores for a float bound to a text column;
  \<^item> \<open>text_as_number\<close>: the number SQLite stores for a text bound to an integer column
    when the text is a well-formed integer or real literal (an integer of 64 bits,
    \<open>Inl\<close>, or a float, \<open>Inr\<close>), \<open>None\<close> for any other text;
  \<^item> \<open>pads_year\<close>: whether the C library's \<open>strftime\<close> writes a year below 1000 with
    leading zeros (glibc does not);
  \<^item> \<open>astype_str\<close>: the text pandas' \<open>astype(str)\<close> gives for a cell of the export.
\<close>

record 'f runtime =
  float_mul :: "'f \<Rightarrow> 'f \<Rightarrow> 'f"
  float_of_int :: "int \<Rightarrow> 'f option"
  float_of_str :: "string \<Rightarrow> 'f option"
  float_to_int :: "'f \<Rightarrow> int option"
  float_is_zero :: "'f \<Rightarrow> bool"
  float_is_nan :: "'f \<Rightarrow> bool"
  float_text :: "'f \<Rightarrow> string"
  text_as_number :: "string \<Rightarrow> (int + 'f) option"
  pads_year :: bool
  astype_str :: "'f json \<Rightarrow> string"

text \<open>Truth value testing, as in \<open>x if data.get(k) else y\<close>.\<close>

fun truthy :: "('f, 'r) runtime_scheme \<Rightarrow> 'f json \<Rightarrow> bool" where
  "truthy rt JNull = False"
| "truthy rt (JBool b) = b"
| "truthy rt (JInt n) = (n \<noteq> 0)"
| "truthy rt (JFloat x) = (\<not> float_is_zero rt x)"
| "truthy rt (JStr s) = (s \<noteq> [])"
| "truthy rt (JArr xs) = (xs \<noteq> [])"
| "truthy rt (JObj kvs) = (kvs \<noteq> [])"

text \<open>\<open>bool\<close> is a subclass of \<open>int\<close>: \<open>True\<close> counts as 1 and \<open>False\<close> as 0.\<close>

fun as_int :: "'f json \<Rightarrow> int option" where
  "as_int (JBool b) = Some (if b then 1 else 0)"
| "as_int (JInt n) = Some n"
| "as_int _ = None"

text \<open>Sequence repetition \<open>s * n\<close>: empty when \<open>n \<le> 0\<close>.\<close>

definition repeat :: "'a list \<Rightarrow> int \<Rightarrow> 'a list" where
  "repeat xs n = concat (replicate (nat n) xs)"

definition float_times_int :: "('f, 'r) runtime_scheme \<Rightarrow> 'f \<Rightarrow> 'f json \<Rightarrow> bool \<Rightarrow> error + 'f json" where
  "float_times_int rt x b float_first =
     (case as_int b of
        None \<Rightarrow> Inl TypeError
      | Some n \<Rightarrow>
          (case float_of_int rt n of
             None \<Rightarrow> Inl OverflowError
           | Some y \<Rightarrow>
               Inr (JFloat (if float_first then float_mul rt x y else float_mul rt y x))))"

definition seq_times_int :: "('a list \<Rightarrow> 'f json) \<Rightarrow> 'a list \<Rightarrow> 'f json \<Rightarrow> error + 'f json" where
  "seq_times_int mk xs b =
     (case as_int b of None \<Rightarrow> Inl TypeError | Some n \<Rightarrow> Inr (mk (repeat xs n)))"

text \<open>
  Python's binary \<open>*\<close> on JSON values: numbers multiply (an \<open>int\<close> operand of a float
  product is converted first), a \<open>str\<close> or a \<open>list\<close> times an \<open>int\<close> is repeated, and
  everything else raises \<open>TypeError\<close>.
\<close>

fun py_mul :: "('f, 'r) runtime_scheme \<Rightarrow> 'f json \<Rightarrow> 'f json \<Rightarrow> error + 'f json" where
  "py_mul rt (JFloat x) (JFloat y) = Inr (JFloat (float_mul rt x y))"
| "py_mul rt (JFloat x) b = float_times_int rt x b True"
| "py_mul rt a (JFloat y) = float_times_int rt y a False"
| "py_mul rt (JStr s) b = seq_times_int JStr s b"
| "py_mul rt a (JStr s) = seq_times_int JStr s a"
| "py_mul rt (JArr xs) b = seq_times_int JArr xs b"
| "py_mul rt a (JArr xs) = seq_times_int JArr xs a"
| "py_mul rt a b =
     (case (as_int a, as_int b) of
        (Some m, Some n) \<Rightarrow> Inr (JInt (m * n))
      | _ \<Rightarrow> Inl TypeError)"

text \<open>The request body \<open>data = request.json\<close>, a \<open>dict\<close>, and the three ways it is read.\<close>

type_synonym 'f request = "string \<rightharpoonup> 'f json"

definition py_index :: "'f request \<Rightarrow> string \<Rightarrow> error + 'f json" where
  \<comment> \<open>\<open>data[k]\<close>\<close>
  "py_index data k = (case data k of None \<Rightarrow> Inl (KeyError k) | Some v \<Rightarrow> Inr v)"

definition py_get :: "'f request \<Rightarrow> string \<Rightarrow> 'f json" where
  \<comment> \<open>\<open>data.get(k)\<close>\<close>
  "py_get data k = (case data k of None \<Rightarrow> JNull | Some v \<Rightarrow> v)"

definition py_get_default :: "'f request \<Rightarrow> string \<Rightarrow> 'f json \<Rightarrow> 'f json" where
  \<comment> \<open>\<open>data.get(k, d)\<close>\<close>
  "py_get_default data k d = (case data k of None \<Rightarrow> d | Some v \<Rightarrow> v)"

definition bind_result :: "error + 'a \<Rightarrow> ('a \<Rightarrow> error + 'b) \<Rightarrow> error + 'b" where
  \<comment> \<open>sequencing: the first exception ends the handler\<close>
  "bind_result r f = (case r of Inl e \<Rightarrow> Inl e | Inr x \<Rightarrow> f x)"

section \<open>Values in the database\<close>

text \<open>
  The application stores its orders in an SQLite database through SQLAlchemy. SQLite
  does not reject a value whose type is not the one the column declares: it converts the
  value to the column's affinity where it can and stores it as it is where it cannot. A
  column therefore holds \<open>None\<close>, an \<open>int\<close> of 64 bits, a \<open>float\<close> or a \<open>str\<close>. What a
  handler returns after a commit is read back from the database, so the functions below
  give, for a value assigned to an attribute, the value the column holds afterwards, or
  the exception that binding the value raises.
\<close>

definition int64 :: "int \<Rightarrow> bool" where
  "int64 n = (- (2 ^ 63) \<le> n \<and> n < 2 ^ 63)"

definition digit_char :: "nat \<Rightarrow> char" where
  "digit_char n = ''0123456789'' ! (n mod 10)"

function decimal_nat :: "nat \<Rightarrow> string" where
  "decimal_nat n = (if n < 10 then [digit_char n] else decimal_nat (n div 10) @ [digit_char n])"
  by pat_completeness auto
termination
  by (relation "measure (\<lambda>n. n)") auto

declare decimal_nat.simps [simp del]

definition decimal :: "int \<Rightarrow> string" where
  \<comment> \<open>\<open>str(n)\<close>\<close>
  "decimal n = (if n < 0 then CHR ''-'' # decimal_nat (nat (- n)) else decimal_nat (nat n))"

definition store_text :: "('f, 'r) runtime_scheme \<Rightarrow> 'f json \<Rightarrow> error + 'f json" where
  \<comment> \<open>a \<open>String\<close> or \<open>Text\<close> column (text affinity): a number is stored as its text, a
      \<open>bool\<close> as the text of 1 or 0, NaN as NULL; the driver refuses an \<open>int\<close> outside 64
      bits, a \<open>list\<close> and a \<open>dict\<close>\<close>
  "store_text rt v =
     (case v of
        JNull \<Rightarrow> Inr JNull
      | JBool b \<Rightarrow> Inr (JStr (if b then ''1'' else ''0''))
      | JInt n \<Rightarrow> (if int64 n then Inr (JStr (decimal n)) else Inl OverflowError)
      | JFloat x \<Rightarrow> Inr (if float_is_nan rt x then JNull else JStr (float_text rt x))
      | JStr s \<Rightarrow> Inr (JStr s)
      | JArr xs \<Rightarrow> Inl ProgrammingError
      | JObj kvs \<Rightarrow> Inl ProgrammingError)"

definition store_integer :: "('f, 'r) runtime_scheme \<Rightarrow> 'f json \<Rightarrow> error + 'f json" where
  \<comment> \<open>an \<open>Integer\<close> column (integer affinity): a float equal to an integer strictly
      between \<open>-2^63\<close> and \<open>2^63 - 1\<close> is stored as that integer, a text that is a numeric
      literal as the number; any other float or text is stored as it is\<close>
  "store_integer rt v =
     (case v of
        JNull \<Rightarrow> Inr JNull
      | JBool b \<Rightarrow> Inr (JInt (if b then 1 else 0))
      | JInt n \<Rightarrow> (if int64 n then Inr (JInt n) else Inl OverflowError)
      | JFloat x \<Rightarrow>
          Inr (if float_is_nan rt x then JNull
               else (case float_to_int rt x of
                       None \<Rightarrow> JFloat x
                     | Some k \<Rightarrow> if - (2 ^ 63) < k \<and> k < 2 ^ 63 - 1 then JInt k else JFloat x))
      | JStr s \<Rightarrow>
          Inr (case text_as_number rt s of
                 None \<Rightarrow> JStr s
               | Some (Inl k) \<Rightarrow> JInt k
               | Some (Inr x) \<Rightarrow> JFloat x)
      | JArr xs \<Rightarrow> Inl ProgrammingError
      | JObj kvs \<Rightarrow> Inl ProgrammingError)"

definition to_float :: "('f, 'r) runtime_scheme \<Rightarrow> 'f json \<Rightarrow> error + 'f json" where
  \<comment> \<open>the bind processor SQLAlchemy gives a \<open>Float\<close> column on a dialect without native
      decimals, as SQLite's: \<open>None\<close> stays \<open>None\<close>, any other value \<open>v\<close> becomes
      \<open>float(v)\<close>, and an exception of \<open>float\<close> is raised as \<open>StatementError\<close>\<close>
  "to_float rt v =
     (case v of
        JNull \<Rightarrow> Inr JNull
      | JBool b \<Rightarrow>
          (case float_of_int rt (if b then 1 else 0) of
             None \<Rightarrow> Inl StatementError
           | Some x \<Rightarrow> Inr (JFloat x))
      | JInt n \<Rightarrow>
          (case float_of_int rt n of None \<Rightarrow> Inl StatementError | Some x \<Rightarrow> Inr (JFloat x))
      | JFloat x \<Rightarrow> Inr (JFloat x)
      | JStr s \<Rightarrow>
          (case float_of_str rt s of None \<Rightarrow> Inl StatementError | Some x \<Rightarrow> Inr (JFloat x))
      | JArr xs \<Rightarrow> Inl StatementError
      | JObj kvs \<Rightarrow> Inl StatementError)"

definition store_float :: "('f, 'r) runtime_scheme \<Rightarrow> 'f json \<Rightarrow> error + 'f json" where
  \<comment> \<open>a \<open>Float\<close> column: the bind processor, then the driver, which binds NaN as NULL\<close>
  "store_float rt v =
     bind_result (to_float rt v) (\<lambda>w.
       Inr (case w of JFloat x \<Rightarrow> if float_is_nan rt x then JNull else JFloat x | _ \<Rightarrow> w))"

text \<open>
  When a row that was loaded is flushed, SQLAlchemy writes the columns whose attribute
  was assigned a value that is not \<open>==\<close> to the loaded one. \<open>equals_loaded rt v w\<close> is
  \<open>v == w\<close> for a value \<open>w\<close> that a column holds: \<open>None\<close>, an \<open>int\<close>, a \<open>float\<close> or a \<open>str\<close>
  (a \<open>list\<close> or a \<open>dict\<close> is equal to none of these). Numbers are compared by value, a
  \<open>bool\<close> being the \<open>int\<close> 1 or 0, and NaN is equal to nothing.
\<close>

fun equals_loaded :: "('f, 'r) runtime_scheme \<Rightarrow> 'f json \<Rightarrow> 'f json \<Rightarrow> bool" where
  "equals_loaded rt JNull w = (w = JNull)"
| "equals_loaded rt (JStr s) w = (w = JStr s)"
| "equals_loaded rt (JArr xs) w = False"
| "equals_loaded rt (JObj kvs) w = False"
| "equals_loaded rt (JFloat x) (JFloat y) = (x = y \<and> \<not> float_is_nan rt x)"
| "equals_loaded rt (JFloat x) w =
     (case as_int w of None \<Rightarrow> False | Some n \<Rightarrow> float_to_int rt x = Some n)"
| "equals_loaded rt v (JFloat y) =
     (case as_int v of None \<Rightarrow> False | Some n \<Rightarrow> float_to_int rt y = Some n)"
| "equals_loaded rt v w =
     (case (as_int v, as_int w) of (Some m, Some n) \<Rightarrow> m = n | _ \<Rightarrow> False)"

definition store_column :: "('f, 'r) runtime_scheme \<Rightarrow> ('f json \<Rightarrow> error + 'f json) \<Rightarrow>
    'f json option \<Rightarrow> 'f json \<Rightarrow> error + 'f json" where
  \<comment> \<open>what a column holds after a flush: \<open>conv\<close> is the conversion of the column,
      \<open>loaded\<close> the value that was loaded (\<open>None\<close> for a new row) and \<open>v\<close> the value of the
      attribute\<close>
  "store_column rt conv loaded v =
     (case loaded of
        None \<Rightarrow> conv v
      | Some w \<Rightarrow> if equals_loaded rt v w then Inr w else conv v)"

section \<open>Dates\<close>

record datetime =
  year :: nat
  month :: nat
  day :: nat
  hour :: nat
  minute :: nat
  second :: nat
  microsecond :: nat

definition is_leap :: "nat \<Rightarrow> bool" where
  "is_leap y = (y mod 4 = 0 \<and> (y mod 100 \<noteq> 0 \<or> y mod 400 = 0))"

definition days_in_month :: "nat \<Rightarrow> nat \<Rightarrow> nat" where
  "days_in_month y m =
     (if m = 2 then (if is_leap y then 29 else 28)
      else if m \<in> {4, 6, 9, 11} then 30 else 31)"

definition digit_val :: "char \<Rightarrow> nat" where
  "digit_val c = of_char c - 48"

definition is_digit :: "char \<Rightarrow> bool" where
  "is_digit c = (c \<in> set ''0123456789'')"

text \<open>
  \<open>datetime.strptime(s, '%Y-%m-%d')\<close> matches \<open>s\<close> against the regular expression
  \<open>(\d\d\d\d)-(1[0-2]|0[1-9]|[1-9])-(3[01]|[12]\d|0[1-9]|[1-9]| [1-9])\<close> from its
  start. The alternatives of a group are tried in this order; each function below lists
  the ways its group matches a prefix, as (value, rest of the text).
\<close>

definition month_alts :: "string \<Rightarrow> (nat \<times> string) list" where
  "month_alts s =
     (case s of
        a # b # r \<Rightarrow>
          (if a = CHR ''1'' \<and> b \<in> set ''012'' then [(10 + digit_val b, r)] else []) @
          (if a = CHR ''0'' \<and> b \<in> set ''123456789'' then [(digit_val b, r)] else [])
      | _ \<Rightarrow> []) @
     (case s of
        a # r \<Rightarrow> (if a \<in> set ''123456789'' then [(digit_val a, r)] else [])
      | [] \<Rightarrow> [])"

definition day_alts :: "string \<Rightarrow> (nat \<times> string) list" where
  "day_alts s =
     (case s of
        a # b # r \<Rightarrow>
          (if a = CHR ''3'' \<and> b \<in> set ''01'' then [(30 + digit_val b, r)] else []) @
          (if a \<in> set ''12'' \<and> is_digit b then [(10 * digit_val a + digit_val b, r)] else []) @
          (if a = CHR ''0'' \<and> b \<in> set ''123456789'' then [(digit_val b, r)] else [])
      | _ \<Rightarrow> []) @
     (case s of
        a # r \<Rightarrow> (if a \<in> set ''123456789'' then [(digit_val a, r)] else [])
      | [] \<Rightarrow> []) @
     (case s of
        a # b # r \<Rightarrow>
          (if a = CHR '' '' \<and> b \<in> set ''123456789'' then [(digit_val b, r)] else [])
      | _ \<Rightarrow> [])"

definition regex_matches :: "string \<Rightarrow> (nat \<times> nat \<times> nat \<times> string) list" where
  \<comment> \<open>all matches of the expression at the start of the text, in the order the
      backtracking matcher finds them\<close>
  "regex_matches s =
     (case s of
        y1 # y2 # y3 # y4 # c # rest \<Rightarrow>
          (if is_digit y1 \<and> is_digit y2 \<and> is_digit y3 \<and> is_digit y4 \<and> c = CHR ''-''
           then
             concat (map (\<lambda>(m, r1).
               (case r1 of
                  c' # r2 \<Rightarrow>
                    (if c' = CHR ''-''
                     then map (\<lambda>(d, r3).
                       (1000 * digit_val y1 + 100 * digit_val y2 + 10 * digit_val y3 + digit_val y4,
                        m, d, r3)) (day_alts r2)
                     else [])
                | [] \<Rightarrow> [])) (month_alts rest))
           else [])
      | _ \<Rightarrow> [])"

definition strptime :: "string \<Rightarrow> error + datetime" where
  \<comment> \<open>no match, text left over after the first match, year 0 and a day the month does
      not have are all \<open>ValueError\<close>\<close>
  "strptime s =
     (case regex_matches s of
        [] \<Rightarrow> Inl ValueError
      | (y, m, d, r) # _ \<Rightarrow>
          (if r \<noteq> [] then Inl ValueError
           else if y < 1 \<or> d > days_in_month y m then Inl ValueError
           else Inr \<lparr>year = y, month = m, day = d, hour = 0, minute = 0, second = 0,
                     microsecond = 0\<rparr>))"

definition strptime_py :: "'f json \<Rightarrow> error + datetime" where
  \<comment> \<open>\<open>strptime\<close> on a request value: an argument that is not a \<open>str\<close> is a \<open>TypeError\<close>\<close>
  "strptime_py v = (case v of JStr s \<Rightarrow> strptime s | _ \<Rightarrow> Inl TypeError)"

definition pad2 :: "nat \<Rightarrow> string" where
  "pad2 n = [digit_char (n div 10), digit_char n]"

definition pad4 :: "nat \<Rightarrow> string" where
  "pad4 n = [digit_char (n div 1000), digit_char (n div 100), digit_char (n div 10), digit_char n]"

text \<open>
  \<open>d.strftime('%Y-%m-%d')\<close>, for the years 1 to 9999 a \<open>datetime\<close> has: \<open>%m\<close> and \<open>%d\<close> have
  two digits. CPython leaves \<open>%Y\<close> to the C library: where that pads, the year has four
  digits (0001, ..., 9999); glibc writes the year as a number, so that a year below 1000
  has fewer digits (\<open>999-01-02\<close>).
\<close>

definition strftime :: "('f, 'r) runtime_scheme \<Rightarrow> datetime \<Rightarrow> string" where
  "strftime rt d =
     (if pads_year rt then pad4 (year d) else decimal_nat (year d)) @
     ''-'' @ pad2 (month d) @ ''-'' @ pad2 (day d)"

section \<open>The order table\<close>

text \<open>
  A row of the table \<open>Order\<close>, also used for an \<open>Order\<close> object whose attributes were
  assigned: a column that is not a date holds a Python value, a date column a \<open>datetime\<close>
  or \<open>None\<close> (SQLAlchemy stores a \<open>datetime\<close> as a text with all its fields and reads it
  back unchanged).
\<close>

record 'f order =
  id_pk :: nat
  order_number :: "'f json"
  date :: "datetime option"
  rim_quantity :: "'f json"
  city :: "'f json"
  document_type :: "'f json"
  unit_price :: "'f json"
  total_price :: "'f json"
  entry_date :: "datetime option"
  print_deadline :: "datetime option"
  cek_date :: "datetime option"
  finish_date :: "datetime option"
  status :: "'f json"
  "notes" :: "'f json"

definition date_text :: "('f, 'r) runtime_scheme \<Rightarrow> datetime option \<Rightarrow> 'f json" where
  \<comment> \<open>\<open>d.strftime('%Y-%m-%d') if d else None\<close>\<close>
  "date_text rt d = (case d of None \<Rightarrow> JNull | Some t \<Rightarrow> JStr (strftime rt t))"

definition to_dict :: "('f, 'r) runtime_scheme \<Rightarrow> 'f order \<Rightarrow> (string \<times> 'f json) list" where
  "to_dict rt ord =
     [(''id'', JInt (int (id_pk ord))),
      (''order_number'', order_number ord),
      (''date'', date_text rt (date ord)),
      (''rim_quantity'', rim_quantity ord),
      (''city'', city ord),
      (''document_type'', document_type ord),
      (''unit_price'', unit_price ord),
      (''total_price'', total_price ord),
      (''entry_date'', date_text rt (entry_date ord)),
      (''print_deadline'', date_text rt (print_deadline ord)),
      (''cek_date'', date_text rt (cek_date ord)),
      (''finish_date'', date_text rt (finish_date ord)),
      (''status'', status ord),
      (''notes'', notes ord)]"

text \<open>
  The store is the list of rows in the order \<open>Order.query.all()\<close> returns them. A commit
  first binds the values of the attributes to the parameters of its statement: the bind
  processors of the two \<open>Float\<close> columns run before the statement is executed, then the
  driver binds the parameters in the order of the columns. The statement then checks the
  constraints the columns declare: \<open>nullable=False\<close> on \<open>order_number\<close>, \<open>date\<close>,
  \<open>rim_quantity\<close>, \<open>city\<close>, \<open>document_type\<close>, \<open>unit_price\<close> and \<open>total_price\<close>, and
  \<open>unique=True\<close> on \<open>order_number\<close>. An exception of either step leaves the table as it
  was.
\<close>

type_synonym 'f store = "'f order list"

definition bind_row :: "('f, 'r) runtime_scheme \<Rightarrow> 'f order option \<Rightarrow> 'f order \<Rightarrow>
    error + 'f order" where
  \<comment> \<open>the row an INSERT (\<open>loaded = None\<close>) or an UPDATE of a loaded row writes for the
      attributes \<open>ob\<close>\<close>
  "bind_row rt loaded ob =
     bind_result (store_column rt (store_float rt) (map_option unit_price loaded)
       (unit_price ob)) (\<lambda>unit_price'.
     bind_result (store_column rt (store_float rt) (map_option total_price loaded)
       (total_price ob)) (\<lambda>total_price'.
     bind_result (store_column rt (store_text rt) (map_option order_number loaded)
       (order_number ob)) (\<lambda>order_number'.
     bind_result (store_column rt (store_integer rt) (map_option rim_quantity loaded)
       (rim_quantity ob)) (\<lambda>rim_quantity'.
     bind_result (store_column rt (store_text rt) (map_option city loaded)
       (city ob)) (\<lambda>city'.
     bind_result (store_column rt (store_text rt) (map_option document_type loaded)
       (document_type ob)) (\<lambda>document_type'.
     bind_result (store_column rt (store_text rt) (map_option status loaded)
       (status ob)) (\<lambda>status'.
     bind_result (store_column rt (store_text rt) (map_option notes loaded)
       (notes ob)) (\<lambda>notes'.
       Inr (ob\<lparr>order_number := order_number',
                rim_quantity := rim_quantity',
                city := city',
                document_type := document_type',
                unit_price := unit_price',
                total_price := total_price',
                status := status',
                notes := notes'\<rparr>)))))))))"

definition violates_not_null :: "'f order \<Rightarrow> bool" where
  "violates_not_null row =
     (order_number row = JNull \<or> date row = None \<or> rim_quantity row = JNull \<or>
      city row = JNull \<or> document_type row = JNull \<or> unit_price row = JNull \<or>
      total_price row = JNull)"

definition next_id :: "'f store \<Rightarrow> nat" where
  \<comment> \<open>the generated primary key: one more than the largest key in the table\<close>
  "next_id s = Suc (fold max (map id_pk s) 0)"

definition with_defaults :: "'f order \<Rightarrow> 'f order" where
  \<comment> \<open>\<open>status = db.Column(db.String(50), default='masuk')\<close>: SQLAlchemy leaves an
      attribute that is \<open>None\<close> out of the INSERT, so that the column's default is stored,
      also when \<open>None\<close> was assigned explicitly\<close>
  "with_defaults row = (if status row = JNull then row\<lparr>status := JStr ''masuk''\<rparr> else row)"

definition insert_row :: "('f, 'r) runtime_scheme \<Rightarrow> 'f store \<Rightarrow> 'f order \<Rightarrow>
    error + ('f store \<times> 'f order)" where
  \<comment> \<open>\<open>db.session.add(order); db.session.commit()\<close>: the table after the commit and
      the row as it is read back\<close>
  "insert_row rt s ob =
     bind_result (bind_row rt None (with_defaults (ob\<lparr>id_pk := next_id s\<rparr>))) (\<lambda>row.
       if violates_not_null row \<or> order_number row \<in> set (map order_number s)
       then Inl IntegrityError
       else Inr (s @ [row], row))"

definition update_row :: "('f, 'r) runtime_scheme \<Rightarrow> 'f store \<Rightarrow> 'f order \<Rightarrow> 'f order \<Rightarrow>
    error + ('f store \<times> 'f order)" where
  \<comment> \<open>\<open>db.session.commit()\<close> after the attributes of the row \<open>loaded\<close> were assigned
      the values \<open>ob\<close>: the table after the commit and the row as it is read back\<close>
  "update_row rt s loaded ob =
     bind_result (bind_row rt (Some loaded) ob) (\<lambda>row.
       if violates_not_null row \<or>
          order_number row \<in> set (map order_number (filter (\<lambda>r. id_pk r \<noteq> id_pk row) s))
       then Inl IntegrityError
       else Inr (map (\<lambda>r. if id_pk r = id_pk row then row else r) s, row))"

definition get_or_404 :: "'f store \<Rightarrow> nat \<Rightarrow> error + 'f order" where
  \<comment> \<open>\<open>Order.query.get_or_404(order_id)\<close>: the key is bound to the parameter of a
      SELECT, and the driver refuses an \<open>int\<close> outside 64 bits\<close>
  "get_or_404 s order_id =
     (if \<not> int64 (int order_id) then Inl OverflowError
      else (case find (\<lambda>r. id_pk r = order_id) s of None \<Rightarrow> Inl NotFound | Some r \<Rightarrow> Inr r))"

section \<open>The request handlers\<close>

text \<open>
  A handler takes the store and returns the store after the request with either the
  exception that ended it or its response. A response that holds an order is made after
  the commit, from the row as the database holds it. The application registers no error
  handler, so Flask answers \<open>NotFound\<close> with status 404 and every other exception with
  the same status 500 (Internal Server Error).
\<close>

datatype 'f body =
    OneRecord "(string \<times> 'f json) list"
  | RecordList "(string \<times> 'f json) list list"
  | NoContent

record 'f response =
  status_code :: nat
  body :: "'f body"

definition error_status :: "error \<Rightarrow> nat" where
  "error_status e = (case e of NotFound \<Rightarrow> 404 | _ \<Rightarrow> 500)"

definition http_status :: "error + 'f response \<Rightarrow> nat" where
  "http_status r = (case r of Inl e \<Rightarrow> error_status e | Inr resp \<Rightarrow> status_code resp)"

definition get_orders :: "('f, 'r) runtime_scheme \<Rightarrow> 'f store \<Rightarrow> 'f response" where
  "get_orders rt s = \<lparr>status_code = 200, body = RecordList (map (to_dict rt) s)\<rparr>"

definition parse_or :: "('f, 'r) runtime_scheme \<Rightarrow> 'f request \<Rightarrow> string \<Rightarrow> datetime option \<Rightarrow>
    error + datetime option" where
  \<comment> \<open>\<open>datetime.strptime(data[k], '%Y-%m-%d') if data.get(k) else d\<close>\<close>
  "parse_or rt data k d =
     (if truthy rt (py_get data k)
      then bind_result (strptime_py (py_get data k)) (\<lambda>t. Inr (Some t))
      else Inr d)"

definition build_order :: "('f, 'r) runtime_scheme \<Rightarrow> datetime \<Rightarrow> 'f request \<Rightarrow> error + 'f order" where
  \<comment> \<open>lines 73 to 89 of \<open>add_order\<close>, evaluated in the order they are written; the key
      is assigned by the store\<close>
  "build_order rt now data =
     bind_result (parse_or rt data ''date'' (Some now)) (\<lambda>date'.
     bind_result (parse_or rt data ''entry_date'' None) (\<lambda>entry_date'.
     bind_result (parse_or rt data ''print_deadline'' None) (\<lambda>print_deadline'.
     bind_result (py_index data ''order_number'') (\<lambda>order_number'.
     bind_result (py_index data ''rim_quantity'') (\<lambda>rim_quantity'.
     bind_result (py_index data ''city'') (\<lambda>city'.
     bind_result (py_index data ''document_type'') (\<lambda>document_type'.
     bind_result (py_index data ''unit_price'') (\<lambda>unit_price'.
     bind_result (py_mul rt unit_price' rim_quantity') (\<lambda>total_price'.
       Inr \<lparr>id_pk = 0,
            order_number = order_number',
            date = date',
            rim_quantity = rim_quantity',
            city = city',
            document_type = document_type',
            unit_price = unit_price',
            total_price = total_price',
            entry_date = entry_date',
            print_deadline = print_deadline',
            cek_date = None,
            finish_date = None,
            status = py_get_default data ''status'' (JStr ''masuk''),
            notes = py_get_default data ''notes'' (JStr [])\<rparr>)))))))))"

definition add_order :: "('f, 'r) runtime_scheme \<Rightarrow> datetime \<Rightarrow> 'f request \<Rightarrow> 'f store \<Rightarrow>
    'f store \<times> (error + 'f response)" where
  "add_order rt now data s =
     (case build_order rt now data of
        Inl e \<Rightarrow> (s, Inl e)
      | Inr ob \<Rightarrow>
          (case insert_row rt s ob of
             Inl e \<Rightarrow> (s, Inl e)
           | Inr (s', row) \<Rightarrow>
               (s', Inr \<lparr>status_code = 201, body = OneRecord (to_dict rt row)\<rparr>)))"

definition update_basic :: "('f, 'r) runtime_scheme \<Rightarrow> 'f request \<Rightarrow> 'f order \<Rightarrow> error + 'f order" where
  \<comment> \<open>lines 101 to 108 of \<open>update_order\<close>\<close>
  "update_basic rt data ob =
     (let o1 = ob\<lparr>order_number := py_get_default data ''order_number'' (order_number ob),
                  rim_quantity := py_get_default data ''rim_quantity'' (rim_quantity ob),
                  city := py_get_default data ''city'' (city ob),
                  document_type := py_get_default data ''document_type'' (document_type ob),
                  unit_price := py_get_default data ''unit_price'' (unit_price ob)\<rparr>
      in bind_result (py_mul rt (rim_quantity o1) (unit_price o1)) (\<lambda>total_price'.
           Inr (o1\<lparr>total_price := total_price',
                   status := py_get_default data ''status'' (status o1),
                   notes := py_get_default data ''notes'' (notes o1)\<rparr>)))"

definition update_dates :: "('f, 'r) runtime_scheme \<Rightarrow> 'f request \<Rightarrow> 'f order \<Rightarrow> error + 'f order" where
  \<comment> \<open>lines 111 to 120 of \<open>update_order\<close>\<close>
  "update_dates rt data ob =
     bind_result (parse_or rt data ''date'' (date ob)) (\<lambda>date'.
     bind_result (parse_or rt data ''entry_date'' (entry_date ob)) (\<lambda>entry_date'.
     bind_result (parse_or rt data ''print_deadline'' (print_deadline ob)) (\<lambda>print_deadline'.
     bind_result (parse_or rt data ''cek_date'' (cek_date ob)) (\<lambda>cek_date'.
     bind_result (parse_or rt data ''finish_date'' (finish_date ob)) (\<lambda>finish_date'.
       Inr (ob\<lparr>date := date',
                entry_date := entry_date',
                print_deadline := print_deadline',
                cek_date := cek_date',
                finish_date := finish_date'\<rparr>))))))"

definition update_order :: "('f, 'r) runtime_scheme \<Rightarrow> nat \<Rightarrow> 'f request \<Rightarrow> 'f store \<Rightarrow>
    'f store \<times> (error + 'f response)" where
  "update_order rt order_id data s =
     (case get_or_404 s order_id of
        Inl e \<Rightarrow> (s, Inl e)
      | Inr loaded \<Rightarrow>
          (case bind_result (update_basic rt data loaded) (update_dates rt data) of
             Inl e \<Rightarrow> (s, Inl e)
           | Inr ob \<Rightarrow>
               (case update_row rt s loaded ob of
                  Inl e \<Rightarrow> (s, Inl e)
                | Inr (s', row) \<Rightarrow>
                    (s', Inr \<lparr>status_code = 200, body = OneRecord (to_dict rt row)\<rparr>))))"

definition delete_order :: "nat \<Rightarrow> 'f store \<Rightarrow> 'f store \<times> (error + 'f response)" where
  "delete_order order_id s =
     (case get_or_404 s order_id of
        Inl e \<Rightarrow> (s, Inl e)
      | Inr ob \<Rightarrow>
          (filter (\<lambda>r. id_pk r \<noteq> id_pk ob) s, Inr \<lparr>status_code = 204, body = NoContent\<rparr>))"

section \<open>The export\<close>

text \<open>
  \<open>export_to_excel\<close> builds a pandas \<open>DataFrame\<close> from the serialized orders and writes
  it with xlsxwriter. A \<open>DataFrame\<close> made from a list of dicts takes its columns from the
  keys of the dicts, so one made from the empty list has no column. A worksheet is what
  was written to it: the cells by (row, column), a later write replacing an earlier one,
  and the widths set by \<open>set_column\<close>.
\<close>

record cell_format =
  bold :: bool
  text_wrap :: bool
  valign :: string
  fg_color :: string
  border :: nat

record 'f worksheet =
  cells :: "((nat \<times> nat) \<times> ('f json \<times> cell_format option)) list"
  widths :: "(nat \<times> nat) list"

definition empty_worksheet :: "'f worksheet" where
  "empty_worksheet = \<lparr>cells = [], widths = []\<rparr>"

definition write_cell :: "nat \<Rightarrow> nat \<Rightarrow> 'f json \<Rightarrow> cell_format option \<Rightarrow> 'f worksheet \<Rightarrow> 'f worksheet" where
  \<comment> \<open>\<open>worksheet.write(row, col, value, format)\<close>\<close>
  "write_cell r c v fmt ws = ws\<lparr>cells := AList.update (r, c) (v, fmt) (cells ws)\<rparr>"

definition set_column :: "nat \<Rightarrow> nat \<Rightarrow> 'f worksheet \<Rightarrow> 'f worksheet" where
  \<comment> \<open>\<open>worksheet.set_column(i, i, width)\<close>\<close>
  "set_column c w ws = ws\<lparr>widths := AList.update c w (widths ws)\<rparr>"

definition cell_at :: "'f worksheet \<Rightarrow> nat \<Rightarrow> nat \<Rightarrow> ('f json \<times> cell_format option) option" where
  "cell_at ws r c = map_of (cells ws) (r, c)"

definition width_of :: "'f worksheet \<Rightarrow> nat \<Rightarrow> nat option" where
  "width_of ws c = map_of (widths ws) c"

definition n_rows :: "'f worksheet \<Rightarrow> nat" where
  \<comment> \<open>the number of rows that hold a cell\<close>
  "n_rows ws = card (set (map (\<lambda>kv. fst (fst kv)) (cells ws)))"

definition df_columns :: "(string \<times> 'f json) list list \<Rightarrow> string list" where
  \<comment> \<open>\<open>pd.DataFrame(data).columns\<close>, for records that all carry the same keys\<close>
  "df_columns data = (case data of [] \<Rightarrow> [] | d # _ \<Rightarrow> map fst d)"

definition df_value :: "(string \<times> 'f json) list \<Rightarrow> string \<Rightarrow> 'f json" where
  \<comment> \<open>the value of a record in a column, missing when the record lacks the key\<close>
  "df_value d col = (case map_of d col of None \<Rightarrow> JNull | Some v \<Rightarrow> v)"

definition pandas_header_style :: cell_format where
  \<comment> \<open>the style \<open>to_excel\<close> gives its header cells, before the handler replaces it\<close>
  "pandas_header_style =
     \<lparr>bold = True, text_wrap = False, valign = ''top'', fg_color = [], border = 1\<rparr>"

definition write_value :: "nat \<Rightarrow> nat \<Rightarrow> 'f json \<Rightarrow> 'f worksheet \<Rightarrow> 'f worksheet" where
  \<comment> \<open>a data cell: pandas writes a missing value as the empty text, for which
      xlsxwriter writes no cell when there is no format\<close>
  "write_value r c v ws = (if v = JNull then ws else write_cell r c v None ws)"

definition to_excel :: "(string \<times> 'f json) list list \<Rightarrow> 'f worksheet \<Rightarrow> 'f worksheet" where
  \<comment> \<open>\<open>df.to_excel(writer, index=False)\<close>: the column names in row 0, record \<open>i\<close> in
      row \<open>i + 1\<close>\<close>
  "to_excel data ws =
     (let cols = df_columns data in
      fold (\<lambda>i. fold (\<lambda>j. write_value (Suc i) j (df_value (data ! i) (cols ! j)))
                    [0..<length cols])
        [0..<length data]
        (fold (\<lambda>j. write_cell 0 j (JStr (cols ! j)) (Some pandas_header_style))
           [0..<length cols] ws))"

definition header_format :: cell_format where
  "header_format =
     \<lparr>bold = True, text_wrap = True, valign = ''top'', fg_color = ''#D7E4BC'', border = 1\<rparr>"

definition column_width :: "('f, 'r) runtime_scheme \<Rightarrow> (string \<times> 'f json) list list \<Rightarrow> string \<Rightarrow> nat" where
  \<comment> \<open>\<open>max(df[col].astype(str).map(len).max(), len(col)) + 2\<close>\<close>
  "column_width rt data col =
     max (fold max (map (\<lambda>d. length (astype_str rt (df_value d col))) data) 0) (length col) + 2"

definition export_to_excel :: "('f, 'r) runtime_scheme \<Rightarrow> 'f store \<Rightarrow> (string \<times> 'f worksheet) list" where
  \<comment> \<open>the sheets of the workbook that is sent\<close>
  "export_to_excel rt s =
     (let data = map (to_dict rt) s;
          cols = df_columns data;
          ws1 = to_excel data empty_worksheet;
          ws2 = fold (\<lambda>j. write_cell 0 j (JStr (cols ! j)) (Some header_format))
                  [0..<length cols] ws1;
          ws3 = fold (\<lambda>i. set_column i (column_width rt data (cols ! i))) [0..<length cols] ws2
      in [(''Orders'', ws3)])"

section \<open>Example values\<close>

text \<open>
  A runtime whose floats are exact rationals, on a platform that does not pad the year.
  Its conversions from text read a text of decimal digits only, its \<open>float_text\<close> is
  right on floats that are integers, and its \<open>astype_str\<close> on strings and \<open>None\<close>.
\<close>

definition digits_value :: "string \<Rightarrow> int option" where
  "digits_value s =
     (if s \<noteq> [] \<and> list_all is_digit s
      then Some (fold (\<lambda>c n. 10 * n + int (digit_val c)) s 0)
      else None)"

definition example_runtime :: "rat runtime" where
  "example_runtime =
     \<lparr>float_mul = (\<lambda>x y. x * y),
      float_of_int = (\<lambda>n. Some (of_int n)),
      float_of_str = (\<lambda>s. map_option of_int (digits_value s)),
      float_to_int = (\<lambda>x. if of_int \<lfloor>x\<rfloor> = x then Some \<lfloor>x\<rfloor> else None),
      float_is_zero = (\<lambda>x. x = 0),
      float_is_nan = (\<lambda>x. False),
      float_text = (\<lambda>x. decimal \<lfloor>x\<rfloor> @ ''.0''),
      text_as_number = (\<lambda>s. map_option Inl (digits_value s)),
      pads_year = False,
      astype_str = (\<lambda>v. case v of JStr s \<Rightarrow> s | JNull \<Rightarrow> ''None'' | _ \<Rightarrow> ''0'')\<rparr>"

definition example_now :: datetime where
  "example_now =
     \<lparr>year = 2024, month = 5, day = 17, hour = 13, minute = 4, second = 5, microsecond = 6\<rparr>"

definition example_input :: "rat request" where
  \<comment> \<open>the example of the specification\<close>
  "example_input =
     [''order_number'' \<mapsto> JStr ''A1'', ''rim_quantity'' \<mapsto> JInt 10, ''city'' \<mapsto> JStr ''X'',
      ''document_type'' \<mapsto> JStr ''Invoice'', ''unit_price'' \<mapsto> JInt 5]"

definition example_order :: "rat order" where
  \<comment> \<open>the row that creating \<open>example_input\<close> in the empty store stores: the \<open>Float\<close>
      columns hold floats\<close>
  "example_order =
     \<lparr>id_pk = 1, order_number = JStr ''A1'', date = Some example_now, rim_quantity = JInt 10,
      city = JStr ''X'', document_type = JStr ''Invoice'', unit_price = JFloat 5,
      total_price = JFloat 50, entry_date = None, print_deadline = None, cek_date = None,
      finish_date = None, status = JStr ''masuk'', notes = JStr []\<rparr>"

definition example_update :: "rat request" where
  "example_update =
     [''rim_quantity'' \<mapsto> JInt 3, ''entry_date'' \<mapsto> JStr [], ''cek_date'' \<mapsto> JStr ''2024-06-01'']"

definition example_updated :: "rat order" where
  \<comment> \<open>\<open>example_order\<close> after the update \<open>example_update\<close>\<close>
  "example_updated =
     example_order\<lparr>rim_quantity := JInt 3, total_price := JFloat 15,
       cek_date := Some \<lparr>year = 2024, month = 6, day = 1, hour = 0, minute = 0, second = 0,
         microsecond = 0\<rparr>\<rparr>"

section \<open>Notions of the specification\<close>


definition iso_date :: "string \<Rightarrow> bool" where
  \<comment> \<open>a text of the shape YYYY-MM-DD\<close>
  "iso_date s =
     (length s = 10 \<and> is_digit (s ! 0) \<and> is_digit (s ! 1) \<and> is_digit (s ! 2) \<and> is_digit (s ! 3) \<and>
      s ! 4 = CHR ''-'' \<and> is_digit (s ! 5) \<and> is_digit (s ! 6) \<and> s ! 7 = CHR ''-'' \<and>
      is_digit (s ! 8) \<and> is_digit (s ! 9))"



definition column_value :: "('f, 'r) runtime_scheme \<Rightarrow> 'f json \<Rightarrow> bool" where
  \<comment> \<open>a value a column can hold: \<open>None\<close>, an \<open>int\<close>, a \<open>float\<close> that is not NaN or a
      \<open>str\<close>\<close>
  "column_value rt w =
     (case w of
        JNull \<Rightarrow> True
      | JInt n \<Rightarrow> True
      | JFloat x \<Rightarrow> \<not> float_is_nan rt x
      | JStr s \<Rightarrow> True
      | _ \<Rightarrow> False)"

definition stored_row :: "('f, 'r) runtime_scheme \<Rightarrow> 'f order \<Rightarrow> bool" where
  \<comment> \<open>every column of the row that is not a date holds a value a column can hold\<close>
  "stored_row rt r =
     (column_value rt (order_number r) \<and> column_value rt (rim_quantity r) \<and>
      column_value rt (city r) \<and> column_value rt (document_type r) \<and>
      column_value rt (unit_price r) \<and> column_value rt (total_price r) \<and>
      column_value rt (status r) \<and> column_value rt (notes r))"


definition field_rule :: "('f, 'r) runtime_scheme \<Rightarrow> ('f json \<Rightarrow> error + 'f json) \<Rightarrow>
    'f json option \<Rightarrow> 'f json \<Rightarrow> 'f json \<Rightarrow> bool" where
  \<comment> \<open>how an update treats a field that is not a date: \<open>conv\<close> is the conversion of
      its column, \<open>v\<close> what the input has under the key, \<open>old\<close> the stored value and \<open>new\<close>
      the value after the update\<close>
  "field_rule rt conv v old new =
     (case v of
        None \<Rightarrow> new = old
      | Some x \<Rightarrow> if equals_loaded rt x old then new = old else conv x = Inr new)"

definition date_rule :: "('f, 'r) runtime_scheme \<Rightarrow> 'f json option \<Rightarrow> datetime option \<Rightarrow>
    datetime option \<Rightarrow> bool" where
  \<comment> \<open>how an update treats a date field: \<open>v\<close> is what the input has under the key,
      \<open>old\<close> the stored value and \<open>new\<close> the value after the update\<close>
  "date_rule rt v old new =
     (case v of
        None \<Rightarrow> new = old
      | Some x \<Rightarrow>
          (if truthy rt x
           then (case x of
                   JStr s \<Rightarrow> (case strptime s of Inr d \<Rightarrow> new = Some d | Inl e \<Rightarrow> False)
                 | _ \<Rightarrow> False)
           else new = old))"




section \<open>Lookups by key\<close>

lemma get_or_404_missing:
  "order_id \<notin> set (map id_pk s) \<Longrightarrow> order_id < 2 ^ 63 \<Longrightarrow> get_or_404 s order_id = Inl NotFound"
  by (auto simp: get_or_404_def int64_def find_None_iff split: option.splits)

lemma get_or_404_huge: "\<not> order_id < 2 ^ 63 \<Longrightarrow> get_or_404 s order_id = Inl OverflowError"
  by (simp add: get_or_404_def int64_def)

lemma get_or_404_found:
  "get_or_404 s order_id = Inr ob \<Longrightarrow> ob \<in> set s \<and> id_pk ob = order_id"
  by (auto simp: get_or_404_def find_Some_iff split: option.splits if_splits)

lemma get_or_404_absent:
  "order_id \<notin> set (map id_pk s) \<Longrightarrow> \<exists>e. get_or_404 s order_id = Inl e \<and> e \<noteq> IntegrityError"
  by (cases "order_id < 2 ^ 63") (simp_all add: get_or_404_missing get_or_404_huge)

section \<open>Unknown keys\<close>




section \<open>Sequencing and request access\<close>

lemma bind_result_Inr:
  "bind_result r f = Inr y \<longleftrightarrow> (\<exists>x. r = Inr x \<and> f x = Inr y)"
  by (cases r) (simp_all add: bind_result_def)

lemma bind_result_Inl:
  "bind_result r f = Inl e \<longleftrightarrow> r = Inl e \<or> (\<exists>x. r = Inr x \<and> f x = Inl e)"
  by (cases r) (simp_all add: bind_result_def)

lemma py_index_Inr: "py_index data k = Inr v \<longleftrightarrow> data k = Some v"
  by (simp add: py_index_def split: option.splits)

lemma py_index_error: "py_index data k = Inl e \<Longrightarrow> e = KeyError k"
  by (auto simp: py_index_def split: option.splits)

lemma strptime_error: "strptime s = Inl e \<Longrightarrow> e = ValueError"
  by (auto simp: strptime_def split: list.splits if_splits prod.splits)

lemma strptime_py_error: "strptime_py v = Inl e \<Longrightarrow> e = ValueError \<or> e = TypeError"
  by (cases v) (auto simp: strptime_py_def dest: strptime_error)

lemma parse_or_error: "parse_or rt data k d = Inl e \<Longrightarrow> e = ValueError \<or> e = TypeError"
  by (auto simp: parse_or_def bind_result_Inl dest: strptime_py_error split: if_splits)


lemma py_mul_error: "py_mul rt a b = Inl e \<Longrightarrow> e = TypeError \<or> e = OverflowError"
  by (cases a; cases b)
     (auto simp: float_times_int_def seq_times_int_def split: option.splits)

lemma py_mul_commute:
  assumes "\<And>x y. float_mul rt x y = float_mul rt y x"
  shows "py_mul rt a b = py_mul rt b a"
  using assms
  by (cases a; cases b)
     (simp_all add: float_times_int_def seq_times_int_def mult.commute split: option.splits)

section \<open>Binding values\<close>

lemma store_text_error: "store_text rt v = Inl e \<Longrightarrow> error_status e = 500"
  by (cases v) (auto simp: store_text_def error_status_def split: if_splits)

lemma store_integer_error: "store_integer rt v = Inl e \<Longrightarrow> error_status e = 500"
  by (cases v) (auto simp: store_integer_def error_status_def split: if_splits)

lemma to_float_error: "to_float rt v = Inl e \<Longrightarrow> e = StatementError"
  by (cases v) (auto simp: to_float_def split: option.splits)

lemma store_float_error: "store_float rt v = Inl e \<Longrightarrow> error_status e = 500"
  by (auto simp: store_float_def bind_result_Inl error_status_def dest!: to_float_error)

lemma store_column_error:
  assumes "\<And>v e. conv v = Inl e \<Longrightarrow> error_status e = 500"
    and "store_column rt conv loaded v = Inl e"
  shows "error_status e = 500"
  using assms by (auto simp: store_column_def split: option.splits if_splits)

lemma store_column_new [simp]: "store_column rt conv None v = conv v"
  by (simp add: store_column_def)

lemma store_text_str [simp]: "store_text rt (JStr x) = Inr (JStr x)"
  by (simp add: store_text_def)

lemma store_text_null [simp]: "store_text rt JNull = Inr JNull"
  by (simp add: store_text_def)

lemma bind_row_Inr_iff:
  "bind_row rt loaded ob = Inr row \<longleftrightarrow>
     (\<exists>up tp n q c t st nt.
        store_column rt (store_float rt) (map_option unit_price loaded) (unit_price ob) = Inr up \<and>
        store_column rt (store_float rt) (map_option total_price loaded) (total_price ob) = Inr tp \<and>
        store_column rt (store_text rt) (map_option order_number loaded) (order_number ob) = Inr n \<and>
        store_column rt (store_integer rt) (map_option rim_quantity loaded) (rim_quantity ob) = Inr q \<and>
        store_column rt (store_text rt) (map_option city loaded) (city ob) = Inr c \<and>
        store_column rt (store_text rt) (map_option document_type loaded) (document_type ob) = Inr t \<and>
        store_column rt (store_text rt) (map_option status loaded) (status ob) = Inr st \<and>
        store_column rt (store_text rt) (map_option notes loaded) (notes ob) = Inr nt \<and>
        row = ob\<lparr>order_number := n, rim_quantity := q, city := c, document_type := t,
                 unit_price := up, total_price := tp, status := st, notes := nt\<rparr>)"
  unfolding bind_row_def bind_result_Inr by auto

lemma bind_row_fields:
  assumes "bind_row rt loaded ob = Inr row"
  shows "id_pk row = id_pk ob \<and> date row = date ob \<and> entry_date row = entry_date ob \<and>
     print_deadline row = print_deadline ob \<and> cek_date row = cek_date ob \<and>
     finish_date row = finish_date ob \<and>
     store_column rt (store_float rt) (map_option unit_price loaded) (unit_price ob) =
       Inr (unit_price row) \<and>
     store_column rt (store_float rt) (map_option total_price loaded) (total_price ob) =
       Inr (total_price row) \<and>
     store_column rt (store_text rt) (map_option order_number loaded) (order_number ob) =
       Inr (order_number row) \<and>
     store_column rt (store_integer rt) (map_option rim_quantity loaded) (rim_quantity ob) =
       Inr (rim_quantity row) \<and>
     store_column rt (store_text rt) (map_option city loaded) (city ob) = Inr (city row) \<and>
     store_column rt (store_text rt) (map_option document_type loaded) (document_type ob) =
       Inr (document_type row) \<and>
     store_column rt (store_text rt) (map_option status loaded) (status ob) = Inr (status row) \<and>
     store_column rt (store_text rt) (map_option notes loaded) (notes ob) = Inr (notes row)"
  using assms unfolding bind_row_Inr_iff by (elim exE conjE) simp

lemma store_column_text_error:
  "store_column rt (store_text rt) loaded v = Inl e \<Longrightarrow> error_status e = 500"
  by (rule store_column_error [where conv = "store_text rt"]) (rule store_text_error)

lemma store_column_integer_error:
  "store_column rt (store_integer rt) loaded v = Inl e \<Longrightarrow> error_status e = 500"
  by (rule store_column_error [where conv = "store_integer rt"]) (rule store_integer_error)

lemma store_column_float_error:
  "store_column rt (store_float rt) loaded v = Inl e \<Longrightarrow> error_status e = 500"
  by (rule store_column_error [where conv = "store_float rt"]) (rule store_float_error)

lemma bind_row_error:
  assumes "bind_row rt loaded ob = Inl e"
  shows "error_status e = 500"
  using assms unfolding bind_row_def bind_result_Inl
  by (auto dest: store_column_text_error store_column_integer_error store_column_float_error)


section \<open>Creating an order\<close>

lemma build_order_Inr_iff:
  "build_order rt now data = Inr ob \<longleftrightarrow>
     (\<exists>d e p n q c t u tp.
        parse_or rt data ''date'' (Some now) = Inr d \<and>
        parse_or rt data ''entry_date'' None = Inr e \<and>
        parse_or rt data ''print_deadline'' None = Inr p \<and>
        data ''order_number'' = Some n \<and> data ''rim_quantity'' = Some q \<and>
        data ''city'' = Some c \<and> data ''document_type'' = Some t \<and>
        data ''unit_price'' = Some u \<and> py_mul rt u q = Inr tp \<and>
        ob = \<lparr>id_pk = 0, order_number = n, date = d, rim_quantity = q, city = c,
              document_type = t, unit_price = u, total_price = tp, entry_date = e,
              print_deadline = p, cek_date = None, finish_date = None,
              status = py_get_default data ''status'' (JStr ''masuk''),
              notes = py_get_default data ''notes'' (JStr [])\<rparr>)"
  unfolding build_order_def bind_result_Inr py_index_Inr by auto

lemma build_order_Inr:
  assumes "build_order rt now data = Inr ob"
  shows "parse_or rt data ''date'' (Some now) = Inr (date ob) \<and>
     parse_or rt data ''entry_date'' None = Inr (entry_date ob) \<and>
     parse_or rt data ''print_deadline'' None = Inr (print_deadline ob) \<and>
     data ''order_number'' = Some (order_number ob) \<and>
     data ''rim_quantity'' = Some (rim_quantity ob) \<and>
     data ''city'' = Some (city ob) \<and>
     data ''document_type'' = Some (document_type ob) \<and>
     data ''unit_price'' = Some (unit_price ob) \<and>
     py_mul rt (unit_price ob) (rim_quantity ob) = Inr (total_price ob) \<and>
     cek_date ob = None \<and> finish_date ob = None \<and>
     status ob = py_get_default data ''status'' (JStr ''masuk'') \<and>
     notes ob = py_get_default data ''notes'' (JStr []) \<and> id_pk ob = 0"
  using assms unfolding build_order_Inr_iff by (elim exE conjE) simp

lemma build_order_error:
  assumes "build_order rt now data = Inl e"
  shows "error_status e = 500"
proof -
  have "e = ValueError \<or> e = TypeError \<or> e = OverflowError \<or> (\<exists>k. e = KeyError k)"
    using assms unfolding build_order_def bind_result_Inl
    by (auto dest!: parse_or_error py_mul_error py_index_error)
  then show ?thesis by (auto simp: error_status_def)
qed

lemma build_order_ignores:
  assumes "k \<notin> {''date'', ''entry_date'', ''print_deadline'', ''order_number'', ''rim_quantity'',
     ''city'', ''document_type'', ''unit_price'', ''status'', ''notes''}"
  shows "build_order rt now (data(k := v)) = build_order rt now data"
proof -
  have "\<And>k'. k' \<in> {''date'', ''entry_date'', ''print_deadline'', ''order_number'', ''rim_quantity'',
     ''city'', ''document_type'', ''unit_price'', ''status'', ''notes''} \<Longrightarrow> (data(k := v)) k' = data k'"
    using assms by auto
  then show ?thesis
    unfolding build_order_def parse_or_def py_get_def py_index_def py_get_default_def
    by simp
qed

lemma with_defaults_fields:
  "id_pk (with_defaults r) = id_pk r" "order_number (with_defaults r) = order_number r"
  "date (with_defaults r) = date r" "rim_quantity (with_defaults r) = rim_quantity r"
  "city (with_defaults r) = city r" "document_type (with_defaults r) = document_type r"
  "unit_price (with_defaults r) = unit_price r" "total_price (with_defaults r) = total_price r"
  "entry_date (with_defaults r) = entry_date r" "print_deadline (with_defaults r) = print_deadline r"
  "cek_date (with_defaults r) = cek_date r" "finish_date (with_defaults r) = finish_date r"
  "notes (with_defaults r) = notes r"
  "status (with_defaults r) = (if status r = JNull then JStr ''masuk'' else status r)"
  by (simp_all add: with_defaults_def)

lemma insert_row_Inr:
  assumes "insert_row rt s ob = Inr (s', row)"
  shows "bind_row rt None (with_defaults (ob\<lparr>id_pk := next_id s\<rparr>)) = Inr row \<and>
     \<not> violates_not_null row \<and> order_number row \<notin> set (map order_number s) \<and>
     s' = s @ [row]"
  using assms by (auto simp: insert_row_def bind_result_Inr split: if_splits)

lemma insert_row_Inl:
  assumes "insert_row rt s ob = Inl e"
  shows "error_status e = 500"
  using assms
  by (auto simp: insert_row_def bind_result_Inl error_status_def dest: bind_row_error
      split: if_splits)

lemma insert_row_bound:
  assumes "bind_row rt None (with_defaults (ob\<lparr>id_pk := next_id s\<rparr>)) = Inr row"
  shows "insert_row rt s ob =
     (if violates_not_null row \<or> order_number row \<in> set (map order_number s)
      then Inl IntegrityError else Inr (s @ [row], row))"
  using assms by (simp add: insert_row_def bind_result_def)

lemma add_order_Inr:
  assumes "add_order rt now data s = (s', Inr resp)"
  shows "\<exists>ob row. build_order rt now data = Inr ob \<and>
     bind_row rt None (with_defaults (ob\<lparr>id_pk := next_id s\<rparr>)) = Inr row \<and>
     \<not> violates_not_null row \<and> order_number row \<notin> set (map order_number s) \<and>
     s' = s @ [row] \<and>
     resp = \<lparr>status_code = 201, body = OneRecord (to_dict rt row)\<rparr>"
proof (cases "build_order rt now data")
  case (Inl e)
  with assms show ?thesis by (simp add: add_order_def)
next
  case ob: (Inr ob)
  show ?thesis
  proof (cases "insert_row rt s ob")
    case (Inl e)
    with ob assms show ?thesis by (simp add: add_order_def)
  next
    case (Inr p)
    obtain s1 row where p: "p = (s1, row)" by (cases p)
    with Inr ob assms have eq: "s1 = s'" "resp = \<lparr>status_code = 201, body = OneRecord (to_dict rt row)\<rparr>"
      by (simp_all add: add_order_def)
    from Inr p eq have "insert_row rt s ob = Inr (s', row)" by simp
    from insert_row_Inr [OF this] ob eq(2) show ?thesis
      by (intro exI [of _ ob] exI [of _ row]) simp
  qed
qed

lemma add_order_store:
  "fst (add_order rt now data s) = s \<or>
   (\<exists>row. fst (add_order rt now data s) = s @ [row])"
proof (cases "build_order rt now data")
  case (Inl e)
  then show ?thesis by (simp add: add_order_def)
next
  case ob: (Inr ob)
  show ?thesis
  proof (cases "insert_row rt s ob")
    case (Inl e)
    with ob show ?thesis by (simp add: add_order_def)
  next
    case (Inr p)
    obtain s1 row where p: "p = (s1, row)" by (cases p)
    with Inr insert_row_Inr [of rt s ob s1 row] have "s1 = s @ [row]" by simp
    with Inr ob p show ?thesis by (simp add: add_order_def)
  qed
qed

lemma add_order_Inl:
  assumes "snd (add_order rt now data s) = Inl e"
  shows "fst (add_order rt now data s) = s" and "error_status e = 500"
proof -
  show "fst (add_order rt now data s) = s"
    using assms
    by (cases "build_order rt now data")
       (auto simp: add_order_def split: sum.splits prod.splits)
  show "error_status e = 500"
  proof (cases "build_order rt now data")
    case (Inl e')
    with assms have "e' = e" by (simp add: add_order_def)
    with Inl show ?thesis by (simp add: build_order_error)
  next
    case (Inr ob)
    with assms have "insert_row rt s ob = Inl e"
      by (auto simp: add_order_def split: sum.splits prod.splits)
    then show ?thesis by (rule insert_row_Inl)
  qed
qed

lemma add_order_build_error:
  assumes "build_order rt now data = Inl e"
  shows "add_order rt now data s = (s, Inl e)"
  using assms by (simp add: add_order_def)

lemma add_order_created:
  assumes "add_order rt now data s = (s', Inr resp)"
  shows "\<exists>ob row. build_order rt now data = Inr ob \<and> s' = s @ [row] \<and>
     body resp = OneRecord (to_dict rt row) \<and> status_code resp = 201 \<and>
     order_number row \<notin> set (map order_number s) \<and> \<not> violates_not_null row \<and>
     id_pk row = next_id s \<and> date row = date ob \<and> entry_date row = entry_date ob \<and>
     print_deadline row = print_deadline ob \<and> cek_date row = None \<and> finish_date row = None \<and>
     store_text rt (order_number ob) = Inr (order_number row) \<and>
     store_integer rt (rim_quantity ob) = Inr (rim_quantity row) \<and>
     store_text rt (city ob) = Inr (city row) \<and>
     store_text rt (document_type ob) = Inr (document_type row) \<and>
     store_float rt (unit_price ob) = Inr (unit_price row) \<and>
     store_float rt (total_price ob) = Inr (total_price row) \<and>
     store_text rt (if status ob = JNull then JStr ''masuk'' else status ob) = Inr (status row) \<and>
     store_text rt (notes ob) = Inr (notes row)"
proof -
  from add_order_Inr [OF assms] obtain ob row where
    ob: "build_order rt now data = Inr ob"
    and row: "bind_row rt None (with_defaults (ob\<lparr>id_pk := next_id s\<rparr>)) = Inr row"
    and nn: "\<not> violates_not_null row"
    and uniq: "order_number row \<notin> set (map order_number s)"
    and s': "s' = s @ [row]"
    and resp: "resp = \<lparr>status_code = 201, body = OneRecord (to_dict rt row)\<rparr>"
    by (elim exE conjE)
  from build_order_Inr [OF ob] have unset: "cek_date ob = None" "finish_date ob = None"
    by simp_all
  from bind_row_fields [OF row]
  have st: "store_text rt (status (with_defaults (ob\<lparr>id_pk := next_id s\<rparr>))) = Inr (status row)"
    by simp
  have "status (with_defaults (ob\<lparr>id_pk := next_id s\<rparr>)) =
      (if status ob = JNull then JStr ''masuk'' else status ob)"
    by (simp add: with_defaults_fields)
  with st have st': "store_text rt (if status ob = JNull then JStr ''masuk'' else status ob) =
      Inr (status row)"
    by (simp only:)
  from bind_row_fields [OF row] unset
  have fields: "id_pk row = next_id s \<and> date row = date ob \<and> entry_date row = entry_date ob \<and>
     print_deadline row = print_deadline ob \<and> cek_date row = None \<and> finish_date row = None \<and>
     store_text rt (order_number ob) = Inr (order_number row) \<and>
     store_integer rt (rim_quantity ob) = Inr (rim_quantity row) \<and>
     store_text rt (city ob) = Inr (city row) \<and>
     store_text rt (document_type ob) = Inr (document_type row) \<and>
     store_float rt (unit_price ob) = Inr (unit_price row) \<and>
     store_float rt (total_price ob) = Inr (total_price row) \<and>
     store_text rt (notes ob) = Inr (notes row)"
    by (simp add: with_defaults_fields)
  from resp have "body resp = OneRecord (to_dict rt row)" "status_code resp = 201" by simp_all
  with ob s' uniq nn fields st' show ?thesis
    by (elim conjE, intro exI [of _ ob] exI [of _ row] conjI)
qed


section \<open>What a created order holds\<close>




lemma with_defaults_status:
  "with_defaults (r\<lparr>status := JStr x\<rparr>) = (with_defaults r)\<lparr>status := JStr x\<rparr>"
  by (simp add: with_defaults_def)


section \<open>Defaults of Create\<close>



section \<open>The check and finish dates\<close>

text \<open>
  Claim C9. Create never reads \<open>cek_date\<close> or \<open>finish_date\<close>: whatever the input has under
  these keys, the result is the same, and the created order has both unset (null in its
  serialized form). Create leaves the orders already stored as they are and Delete only
  removes orders, so that a stored order's \<open>cek_date\<close> or \<open>finish_date\<close> can only become
  non-null through an Update.
\<close>

theorem create_leaves_cek_and_finish_date_unset:
  "add_order rt now (data(''cek_date'' := v, ''finish_date'' := w)) s = add_order rt now data s \<and>
   (add_order rt now data s = (s', Inr resp) \<longrightarrow>
      (\<exists>row. s' = s @ [row] \<and> body resp = OneRecord (to_dict rt row) \<and>
         cek_date row = None \<and> finish_date row = None \<and>
         map_of (to_dict rt row) ''cek_date'' = Some JNull \<and>
         map_of (to_dict rt row) ''finish_date'' = Some JNull)) \<and>
   take (length s) (fst (add_order rt now data s)) = s \<and>
   (\<forall>r \<in> set (fst (delete_order order_id s)). r \<in> set s)"
proof (intro conjI impI)
  have "build_order rt now (data(''cek_date'' := v, ''finish_date'' := w)) =
      build_order rt now (data(''cek_date'' := v))"
    by (rule build_order_ignores) simp
  also have "\<dots> = build_order rt now data"
    by (rule build_order_ignores) simp
  finally show "add_order rt now (data(''cek_date'' := v, ''finish_date'' := w)) s =
      add_order rt now data s"
    by (simp only: add_order_def)
next
  assume "add_order rt now data s = (s', Inr resp)"
  from add_order_created [OF this] obtain row where
    "s' = s @ [row]" "body resp = OneRecord (to_dict rt row)"
    "cek_date row = None" "finish_date row = None"
    by (elim exE conjE)
  then show "\<exists>row. s' = s @ [row] \<and> body resp = OneRecord (to_dict rt row) \<and>
      cek_date row = None \<and> finish_date row = None \<and>
      map_of (to_dict rt row) ''cek_date'' = Some JNull \<and>
      map_of (to_dict rt row) ''finish_date'' = Some JNull"
    by (intro exI [of _ row]) (simp add: to_dict_def date_text_def)
next
  show "take (length s) (fst (add_order rt now data s)) = s"
    using add_order_store [of rt now data s] by auto
next
  show "\<forall>r \<in> set (fst (delete_order order_id s)). r \<in> set s"
    by (cases "get_or_404 s order_id") (simp_all add: delete_order_def)
qed

theorem create_leaves_cek_and_finish_date_unset_witness:
  "add_order example_runtime example_now
     (example_input(''cek_date'' \<mapsto> JStr ''2024-06-01'', ''finish_date'' \<mapsto> JStr ''2024-06-02'')) [] =
     ([example_order],
      Inr \<lparr>status_code = 201, body = OneRecord (to_dict example_runtime example_order)\<rparr>) \<and>
   cek_date example_order = None \<and> finish_date example_order = None \<and>
   map_of (to_dict example_runtime example_order) ''cek_date'' = Some (JNull :: rat json) \<and>
   cek_date (hd (fst (update_order example_runtime 1 [''cek_date'' \<mapsto> JStr ''2024-06-01'']
     [example_order]))) =
     Some \<lparr>year = 2024, month = 6, day = 1, hour = 0, minute = 0, second = 0, microsecond = 0\<rparr>"
proof -
  have create: "add_order example_runtime example_now example_input [] =
     ([example_order],
      Inr \<lparr>status_code = 201, body = OneRecord (to_dict example_runtime example_order)\<rparr>)"
    by code_simp
  note inst = create_leaves_cek_and_finish_date_unset [of example_runtime example_now
      example_input "Some (JStr ''2024-06-01'')" "Some (JStr ''2024-06-02'')" "[]"
      "[example_order]"
      "\<lparr>status_code = 201, body = OneRecord (to_dict example_runtime example_order)\<rparr>" 1]
  from inst [THEN conjunct1] create
  have 1: "add_order example_runtime example_now
     (example_input(''cek_date'' \<mapsto> JStr ''2024-06-01'', ''finish_date'' \<mapsto> JStr ''2024-06-02'')) [] =
     ([example_order],
      Inr \<lparr>status_code = 201, body = OneRecord (to_dict example_runtime example_order)\<rparr>)"
    by simp
  from inst [THEN conjunct2, THEN conjunct1, THEN mp, OF create]
  have 2: "cek_date example_order = None" "finish_date example_order = None"
    "map_of (to_dict example_runtime example_order) ''cek_date'' = Some (JNull :: rat json)"
    by (elim exE conjE, simp)+
  have 3: "cek_date (hd (fst (update_order example_runtime 1 [''cek_date'' \<mapsto> JStr ''2024-06-01'']
     [example_order]))) =
     Some \<lparr>year = 2024, month = 6, day = 1, hour = 0, minute = 0, second = 0, microsecond = 0\<rparr>"
    by code_simp
  from 1 2 3 show ?thesis by (intro conjI)
qed

section \<open>Absent, empty and null in Create\<close>

text \<open>
  Claim C10, as amended. \<open>data.get('status', 'masuk')\<close> falls back to \<open>masuk\<close> only when the
  key is absent, so an empty string under \<open>status\<close> is stored as the empty string. A null
  under \<open>status\<close> reaches the constructor as \<open>None\<close>, and the column's own default
  (\<open>default='masuk'\<close>) then applies on insert: the created order's status is \<open>masuk\<close>.
  The date falls back to the current date whenever the input's \<open>date\<close> is falsy: absent,
  null or empty.
\<close>

theorem status_and_date_fallbacks:
  assumes "add_order rt now data s = (s', Inr resp)"
  shows "\<exists>row. s' = s @ [row] \<and> body resp = OneRecord (to_dict rt row) \<and>
     (data ''status'' = None \<longrightarrow> status row = JStr ''masuk'') \<and>
     (data ''status'' = Some (JStr []) \<longrightarrow> status row = JStr []) \<and>
     (data ''status'' = Some JNull \<longrightarrow> status row = JStr ''masuk'') \<and>
     (data ''date'' = None \<or> data ''date'' = Some JNull \<or> data ''date'' = Some (JStr []) \<longrightarrow>
        date row = Some now) \<and>
     (\<not> truthy rt (py_get data ''date'') \<longrightarrow> date row = Some now)"
proof -
  from add_order_created [OF assms] obtain ob row where
    ob: "build_order rt now data = Inr ob"
    and s': "s' = s @ [row]" and resp: "body resp = OneRecord (to_dict rt row)"
    and date: "date row = date ob"
    and status: "store_text rt (if status ob = JNull then JStr ''masuk'' else status ob) =
      Inr (status row)"
    by (elim exE conjE)
  from build_order_Inr [OF ob]
  have d: "parse_or rt data ''date'' (Some now) = Inr (date ob)"
    and st: "status ob = py_get_default data ''status'' (JStr ''masuk'')"
    by simp_all
  have 1: "data ''status'' = None \<longrightarrow> status row = JStr ''masuk''"
    using st status by (auto simp: py_get_default_def)
  have 2: "data ''status'' = Some (JStr []) \<longrightarrow> status row = JStr []"
    using st status by (auto simp: py_get_default_def)
  have 3: "data ''status'' = Some JNull \<longrightarrow> status row = JStr ''masuk''"
    using st status by (auto simp: py_get_default_def)
  have 6: "\<not> truthy rt (py_get data ''date'') \<longrightarrow> date row = Some now"
    using d date by (auto simp: parse_or_def)
  have 5: "data ''date'' = None \<or> data ''date'' = Some JNull \<or> data ''date'' = Some (JStr []) \<longrightarrow>
        date row = Some now"
    using 6 by (auto simp: py_get_def)
  from s' resp 1 2 3 5 6 show ?thesis by (intro exI [of _ row] conjI)
qed

theorem status_and_date_fallbacks_witness:
  "add_order example_runtime example_now
     (example_input(''status'' \<mapsto> JStr [], ''date'' \<mapsto> JStr [])) [] =
     ([example_order\<lparr>status := JStr []\<rparr>],
      Inr \<lparr>status_code = 201,
           body = OneRecord (to_dict example_runtime (example_order\<lparr>status := JStr []\<rparr>))\<rparr>) \<and>
   (example_input(''status'' \<mapsto> JStr [], ''date'' \<mapsto> JStr [])) ''status'' = Some (JStr []) \<and>
   (example_input(''status'' \<mapsto> JStr [], ''date'' \<mapsto> JStr [])) ''date'' = Some (JStr []) \<and>
   status (example_order\<lparr>status := JStr []\<rparr>) = JStr [] \<and>
   date (example_order\<lparr>status := JStr []\<rparr>) = Some example_now"
proof -
  have create: "add_order example_runtime example_now
     (example_input(''status'' \<mapsto> JStr [], ''date'' \<mapsto> JStr [])) [] =
     ([example_order\<lparr>status := JStr []\<rparr>],
      Inr \<lparr>status_code = 201,
           body = OneRecord (to_dict example_runtime (example_order\<lparr>status := JStr []\<rparr>))\<rparr>)"
    by code_simp
  have given: "(example_input(''status'' \<mapsto> JStr [], ''date'' \<mapsto> JStr [])) ''status'' = Some (JStr [])"
    "(example_input(''status'' \<mapsto> JStr [], ''date'' \<mapsto> JStr [])) ''date'' = Some (JStr [])"
    by simp_all
  from status_and_date_fallbacks [OF create]
  have "((example_input(''status'' \<mapsto> JStr [], ''date'' \<mapsto> JStr [])) ''status'' = Some (JStr []) \<longrightarrow>
         status (example_order\<lparr>status := JStr []\<rparr>) = JStr []) \<and>
      ((example_input(''status'' \<mapsto> JStr [], ''date'' \<mapsto> JStr [])) ''date'' = None \<or>
       (example_input(''status'' \<mapsto> JStr [], ''date'' \<mapsto> JStr [])) ''date'' = Some JNull \<or>
       (example_input(''status'' \<mapsto> JStr [], ''date'' \<mapsto> JStr [])) ''date'' = Some (JStr []) \<longrightarrow>
         date (example_order\<lparr>status := JStr []\<rparr>) = Some example_now)"
    by (elim exE conjE) simp
  with given create show ?thesis by simp
qed

text \<open>
  Claim C10 as stated fails for null: the input of the specification's example with
  \<open>status\<close> mapped to null passes \<open>None\<close> to the constructor, and the order that is stored
  and returned has the status \<open>masuk\<close>.
\<close>

theorem null_status_is_stored_as_masuk:
  "(\<exists>ob. build_order example_runtime example_now (example_input(''status'' \<mapsto> JNull)) = Inr ob \<and>
      status ob = JNull) \<and>
   add_order example_runtime example_now (example_input(''status'' \<mapsto> JNull)) [] =
     ([example_order],
      Inr \<lparr>status_code = 201, body = OneRecord (to_dict example_runtime example_order)\<rparr>) \<and>
   status example_order = JStr ''masuk'' \<and>
   map_of (to_dict example_runtime example_order) ''status'' = Some (JStr ''masuk'')"
proof -
  have "build_order example_runtime example_now (example_input(''status'' \<mapsto> JNull)) =
      Inr (example_order\<lparr>id_pk := 0, unit_price := JInt 5, total_price := JInt 50,
        status := JNull\<rparr>)"
    by code_simp
  then have 1: "\<exists>ob. build_order example_runtime example_now (example_input(''status'' \<mapsto> JNull)) =
      Inr ob \<and> status ob = JNull"
    by simp
  have 2: "add_order example_runtime example_now (example_input(''status'' \<mapsto> JNull)) [] =
     ([example_order],
      Inr \<lparr>status_code = 201, body = OneRecord (to_dict example_runtime example_order)\<rparr>)"
    by code_simp
  have 3: "status example_order = JStr ''masuk''"
    "map_of (to_dict example_runtime example_order) ''status'' = Some (JStr ''masuk'')"
    by (simp_all add: example_order_def to_dict_def)
  from 1 2 3 show ?thesis by (intro conjI)
qed


section \<open>Failures of Create\<close>

lemma insert_row_duplicate:
  assumes "store_text rt (order_number ob) = Inr t" and "t \<in> set (map order_number s)"
  shows "\<exists>e. insert_row rt s ob = Inl e \<and> error_status e = 500 \<and>
     ((\<exists>row. bind_row rt None (with_defaults (ob\<lparr>id_pk := next_id s\<rparr>)) = Inr row) \<longrightarrow>
      e = IntegrityError)"
proof (cases "bind_row rt None (with_defaults (ob\<lparr>id_pk := next_id s\<rparr>))")
  case (Inl e)
  then have "insert_row rt s ob = Inl e" by (simp add: insert_row_def bind_result_def)
  with Inl bind_row_error [OF Inl] show ?thesis by simp
next
  case (Inr row)
  from bind_row_fields [OF Inr]
  have "store_text rt (order_number ob) = Inr (order_number row)"
    by (simp add: with_defaults_fields)
  with assms have "order_number row \<in> set (map order_number s)" by simp
  with insert_row_bound [OF Inr] have "insert_row rt s ob = Inl IntegrityError" by simp
  then show ?thesis by (simp add: error_status_def)
qed


text \<open>
  Claim C2, as amended. Creating an order whose \<open>order_number\<close>, as the text column
  stores it, is the \<open>order_number\<close> of a stored order fails and leaves the store as it
  was, the first order included. When the input is otherwise complete and its values
  can be bound, the failure is the store's \<open>IntegrityError\<close>, raised by the commit for the
  violated UNIQUE constraint. No handler catches it: the response is the status 500
  that Flask gives every unhandled exception.
\<close>

theorem duplicate_order_number_fails:
  assumes "data ''order_number'' = Some v" and "store_text rt v = Inr t"
    and "t \<in> set (map order_number s)"
  shows "fst (add_order rt now data s) = s \<and>
     (\<exists>e. snd (add_order rt now data s) = Inl e) \<and>
     ((\<exists>ob row. build_order rt now data = Inr ob \<and>
         bind_row rt None (with_defaults (ob\<lparr>id_pk := next_id s\<rparr>)) = Inr row) \<longrightarrow>
        snd (add_order rt now data s) = Inl IntegrityError) \<and>
     http_status (snd (add_order rt now data s)) = 500"
proof (cases "build_order rt now data")
  case (Inl e)
  from add_order_build_error [OF this, of s] build_order_error [OF Inl] Inl
  show ?thesis by (simp add: http_status_def)
next
  case (Inr ob)
  from build_order_Inr [OF this] assms have "store_text rt (order_number ob) = Inr t"
    by simp
  from insert_row_duplicate [OF this assms(3)] obtain e where
    e: "insert_row rt s ob = Inl e" and st: "error_status e = 500"
    and ie: "(\<exists>row. bind_row rt None (with_defaults (ob\<lparr>id_pk := next_id s\<rparr>)) = Inr row) \<longrightarrow>
      e = IntegrityError"
    by (elim exE conjE)
  from Inr e have "add_order rt now data s = (s, Inl e)" by (simp add: add_order_def)
  with Inr st ie show ?thesis by (auto simp: http_status_def)
qed

theorem duplicate_order_number_fails_witness:
  "example_input ''order_number'' = Some (JStr ''A1'') \<and>
   store_text example_runtime (JStr ''A1'') = Inr (JStr ''A1'') \<and>
   JStr ''A1'' \<in> set (map order_number [example_order]) \<and>
   fst (add_order example_runtime example_now example_input [example_order]) = [example_order] \<and>
   snd (add_order example_runtime example_now example_input [example_order]) = Inl IntegrityError \<and>
   http_status (snd (add_order example_runtime example_now example_input [example_order])) = 500"
proof -
  have given: "example_input ''order_number'' = Some (JStr ''A1'')"
    by (simp add: example_input_def)
  have conv: "store_text example_runtime (JStr ''A1'') = Inr (JStr ''A1'')"
    by simp
  have stored: "JStr ''A1'' \<in> set (map order_number [example_order])"
    by (simp add: example_order_def)
  have b1: "build_order example_runtime example_now example_input =
      Inr (example_order\<lparr>id_pk := 0, unit_price := JInt 5, total_price := JInt 50\<rparr>)"
    by code_simp
  have b2: "bind_row example_runtime None
      (with_defaults (example_order\<lparr>id_pk := 0, unit_price := JInt 5, total_price := JInt 50,
         id_pk := next_id [example_order]\<rparr>)) = Inr (example_order\<lparr>id_pk := 2\<rparr>)"
    by code_simp
  from b1 b2 have builds: "\<exists>ob row. build_order example_runtime example_now example_input = Inr ob \<and>
      bind_row example_runtime None (with_defaults (ob\<lparr>id_pk := next_id [example_order]\<rparr>)) =
        Inr row"
    by (intro exI conjI)
  from duplicate_order_number_fails [of example_input "JStr ''A1''" example_runtime "JStr ''A1''"
      "[example_order]" example_now, OF given conv stored] builds
  have "fst (add_order example_runtime example_now example_input [example_order]) = [example_order] \<and>
     snd (add_order example_runtime example_now example_input [example_order]) = Inl IntegrityError \<and>
     http_status (snd (add_order example_runtime example_now example_input [example_order])) = 500"
    by (elim conjE impE) (assumption, intro conjI)
  with given conv stored show ?thesis by (elim conjE, intro conjI)
qed

text \<open>
  Claim C2 as stated fails in that the error is not distinct: the duplicate is answered
  with status 500, as is an input that lacks every required field, and the exception it
  raises is the one a NOT NULL violation raises (here a new order number with a null
  city).
\<close>

theorem duplicate_failure_is_generic:
  "snd (add_order example_runtime example_now example_input [example_order]) = Inl IntegrityError \<and>
   http_status (snd (add_order example_runtime example_now example_input [example_order])) = 500 \<and>
   http_status (snd (add_order example_runtime example_now Map.empty [example_order])) = 500 \<and>
   snd (add_order example_runtime example_now
     (example_input(''order_number'' \<mapsto> JStr ''B2'', ''city'' \<mapsto> JNull)) [example_order]) =
     Inl IntegrityError"
  by (intro conjI; code_simp)




section \<open>Updating an order\<close>

lemma update_basic_Inr_iff:
  "update_basic rt data ob = Inr o2 \<longleftrightarrow>
     (\<exists>tp. py_mul rt (py_get_default data ''rim_quantity'' (rim_quantity ob))
               (py_get_default data ''unit_price'' (unit_price ob)) = Inr tp \<and>
        o2 = ob\<lparr>order_number := py_get_default data ''order_number'' (order_number ob),
                rim_quantity := py_get_default data ''rim_quantity'' (rim_quantity ob),
                city := py_get_default data ''city'' (city ob),
                document_type := py_get_default data ''document_type'' (document_type ob),
                unit_price := py_get_default data ''unit_price'' (unit_price ob),
                total_price := tp,
                status := py_get_default data ''status'' (status ob),
                notes := py_get_default data ''notes'' (notes ob)\<rparr>)"
  by (auto simp: update_basic_def Let_def bind_result_Inr)

lemma update_dates_Inr_iff:
  "update_dates rt data ob = Inr o3 \<longleftrightarrow>
     (\<exists>d e p c f.
        parse_or rt data ''date'' (date ob) = Inr d \<and>
        parse_or rt data ''entry_date'' (entry_date ob) = Inr e \<and>
        parse_or rt data ''print_deadline'' (print_deadline ob) = Inr p \<and>
        parse_or rt data ''cek_date'' (cek_date ob) = Inr c \<and>
        parse_or rt data ''finish_date'' (finish_date ob) = Inr f \<and>
        o3 = ob\<lparr>date := d, entry_date := e, print_deadline := p, cek_date := c,
                finish_date := f\<rparr>)"
  unfolding update_dates_def bind_result_Inr by auto

lemma parse_or_date_rule:
  assumes "parse_or rt data k old = Inr new"
  shows "date_rule rt (data k) old new"
proof (cases "data k")
  case None
  with assms show ?thesis by (simp add: parse_or_def py_get_def date_rule_def)
next
  case (Some x)
  show ?thesis
  proof (cases "truthy rt x")
    case False
    with Some assms show ?thesis by (simp add: parse_or_def py_get_def date_rule_def)
  next
    case True
    with Some assms have "\<exists>t. strptime_py x = Inr t \<and> new = Some t"
      by (auto simp: parse_or_def py_get_def bind_result_Inr)
    with Some True show ?thesis
      by (cases x) (auto simp: date_rule_def strptime_py_def)
  qed
qed

lemma update_row_Inr:
  assumes "update_row rt s loaded ob = Inr (s', row)"
  shows "bind_row rt (Some loaded) ob = Inr row \<and> \<not> violates_not_null row \<and>
     s' = map (\<lambda>r. if id_pk r = id_pk row then row else r) s"
  using assms by (auto simp: update_row_def bind_result_Inr split: if_splits)

lemma update_row_Inl:
  assumes "update_row rt s loaded ob = Inl e"
  shows "error_status e = 500"
  using assms
  by (auto simp: update_row_def bind_result_Inl error_status_def dest: bind_row_error
      split: if_splits)

lemma update_order_Inr:
  assumes "update_order rt order_id data s = (s', Inr resp)"
  shows "\<exists>loaded o2 ob row. get_or_404 s order_id = Inr loaded \<and>
     update_basic rt data loaded = Inr o2 \<and> update_dates rt data o2 = Inr ob \<and>
     bind_row rt (Some loaded) ob = Inr row \<and> \<not> violates_not_null row \<and>
     s' = map (\<lambda>r. if id_pk r = id_pk row then row else r) s \<and>
     resp = \<lparr>status_code = 200, body = OneRecord (to_dict rt row)\<rparr>"
proof (cases "get_or_404 s order_id")
  case (Inl e)
  with assms show ?thesis by (simp add: update_order_def)
next
  case loaded: (Inr loaded)
  show ?thesis
  proof (cases "bind_result (update_basic rt data loaded) (update_dates rt data)")
    case (Inl e)
    with loaded assms show ?thesis by (simp add: update_order_def)
  next
    case ob: (Inr ob)
    then obtain o2 where o2: "update_basic rt data loaded = Inr o2"
      "update_dates rt data o2 = Inr ob"
      by (auto simp: bind_result_Inr)
    show ?thesis
    proof (cases "update_row rt s loaded ob")
      case (Inl e)
      with loaded ob assms show ?thesis by (simp add: update_order_def)
    next
      case (Inr p)
      obtain s1 row where p: "p = (s1, row)" by (cases p)
      with Inr loaded ob assms have eq: "s1 = s'"
        "resp = \<lparr>status_code = 200, body = OneRecord (to_dict rt row)\<rparr>"
        by (simp_all add: update_order_def)
      from Inr p eq have "update_row rt s loaded ob = Inr (s', row)" by simp
      from update_row_Inr [OF this] loaded o2 eq(2) show ?thesis
        by (intro exI [of _ loaded] exI [of _ o2] exI [of _ ob] exI [of _ row]) simp
    qed
  qed
qed

lemma update_basic_id: "update_basic rt data loaded = Inr o2 \<Longrightarrow> id_pk o2 = id_pk loaded"
  unfolding update_basic_Inr_iff by (elim exE conjE) simp

lemma update_dates_id: "update_dates rt data o2 = Inr ob \<Longrightarrow> id_pk ob = id_pk o2"
  unfolding update_dates_Inr_iff by (elim exE conjE) simp

lemma update_order_row:
  assumes "update_order rt order_id data s = (s2, Inr r2)"
  shows "\<exists>old o2 ob new. get_or_404 s order_id = Inr old \<and> old \<in> set s \<and>
     id_pk old = order_id \<and>
     update_basic rt data old = Inr o2 \<and> update_dates rt data o2 = Inr ob \<and>
     bind_row rt (Some old) ob = Inr new \<and> \<not> violates_not_null new \<and>
     id_pk new = order_id \<and> new \<in> set s2 \<and>
     s2 = map (\<lambda>r. if id_pk r = order_id then new else r) s \<and>
     body r2 = OneRecord (to_dict rt new)"
proof -
  from update_order_Inr [OF assms] obtain old o2 ob row where
    old: "get_or_404 s order_id = Inr old"
    and o2: "update_basic rt data old = Inr o2"
    and ob: "update_dates rt data o2 = Inr ob"
    and row: "bind_row rt (Some old) ob = Inr row"
    and nn: "\<not> violates_not_null row"
    and s2: "s2 = map (\<lambda>r. if id_pk r = id_pk row then row else r) s"
    and r2: "r2 = \<lparr>status_code = 200, body = OneRecord (to_dict rt row)\<rparr>"
    by (elim exE conjE)
  from get_or_404_found [OF old] have mem: "old \<in> set s" and oid: "id_pk old = order_id"
    by simp_all
  from bind_row_fields [OF row] update_dates_id [OF ob] update_basic_id [OF o2] oid
  have id: "id_pk row = order_id" by simp
  have "(if id_pk old = order_id then row else old) = row" using oid by simp
  then have "row \<in> (\<lambda>r. if id_pk r = order_id then row else r) ` set s"
    using mem by (rule_tac x = old in image_eqI) simp_all
  then have in2: "row \<in> set s2" using s2 id by simp
  from s2 id have s2': "s2 = map (\<lambda>r. if id_pk r = order_id then row else r) s" by simp
  from r2 have body: "body r2 = OneRecord (to_dict rt row)" by simp
  from old mem oid o2 ob row nn id in2 s2' body show ?thesis
    by (intro exI [of _ old] exI [of _ o2] exI [of _ ob] exI [of _ row] conjI)
qed


lemma update_attributes:
  assumes "update_basic rt data old = Inr o2" and "update_dates rt data o2 = Inr ob"
  shows "order_number ob = py_get_default data ''order_number'' (order_number old) \<and>
     rim_quantity ob = py_get_default data ''rim_quantity'' (rim_quantity old) \<and>
     city ob = py_get_default data ''city'' (city old) \<and>
     document_type ob = py_get_default data ''document_type'' (document_type old) \<and>
     unit_price ob = py_get_default data ''unit_price'' (unit_price old) \<and>
     status ob = py_get_default data ''status'' (status old) \<and>
     notes ob = py_get_default data ''notes'' (notes old) \<and>
     py_mul rt (py_get_default data ''rim_quantity'' (rim_quantity old))
       (py_get_default data ''unit_price'' (unit_price old)) = Inr (total_price ob) \<and>
     date_rule rt (data ''date'') (date old) (date ob) \<and>
     date_rule rt (data ''entry_date'') (entry_date old) (entry_date ob) \<and>
     date_rule rt (data ''print_deadline'') (print_deadline old) (print_deadline ob) \<and>
     date_rule rt (data ''cek_date'') (cek_date old) (cek_date ob) \<and>
     date_rule rt (data ''finish_date'') (finish_date old) (finish_date ob)"
proof -
  from assms(1) obtain tp where
    tp: "py_mul rt (py_get_default data ''rim_quantity'' (rim_quantity old))
               (py_get_default data ''unit_price'' (unit_price old)) = Inr tp"
    and o2: "o2 = old\<lparr>order_number := py_get_default data ''order_number'' (order_number old),
                rim_quantity := py_get_default data ''rim_quantity'' (rim_quantity old),
                city := py_get_default data ''city'' (city old),
                document_type := py_get_default data ''document_type'' (document_type old),
                unit_price := py_get_default data ''unit_price'' (unit_price old),
                total_price := tp,
                status := py_get_default data ''status'' (status old),
                notes := py_get_default data ''notes'' (notes old)\<rparr>"
    unfolding update_basic_Inr_iff by (elim exE conjE)
  from assms(2) obtain d e p c f where
    d: "parse_or rt data ''date'' (date o2) = Inr d"
    and e: "parse_or rt data ''entry_date'' (entry_date o2) = Inr e"
    and p: "parse_or rt data ''print_deadline'' (print_deadline o2) = Inr p"
    and c: "parse_or rt data ''cek_date'' (cek_date o2) = Inr c"
    and f: "parse_or rt data ''finish_date'' (finish_date o2) = Inr f"
    and ob: "ob = o2\<lparr>date := d, entry_date := e, print_deadline := p, cek_date := c,
                finish_date := f\<rparr>"
    unfolding update_dates_Inr_iff by (elim exE conjE)
  from parse_or_date_rule [OF d] parse_or_date_rule [OF e] parse_or_date_rule [OF p]
    parse_or_date_rule [OF c] parse_or_date_rule [OF f] tp
  show ?thesis unfolding ob o2 by simp
qed


section \<open>The total price\<close>







lemma py_mul_int_float:
  "py_mul rt (JInt n) (JFloat x) =
     (case float_of_int rt n of
        None \<Rightarrow> Inl OverflowError
      | Some b \<Rightarrow> Inr (JFloat (float_mul rt b x)))"
  by (simp add: float_times_int_def split: option.splits)









section \<open>The derived total price\<close>





section \<open>Partial update\<close>

lemma equals_loaded_refl: "column_value rt w \<Longrightarrow> equals_loaded rt w w"
  by (cases w) (simp_all add: column_value_def)

lemma store_column_field_rule:
  assumes "store_column rt conv (Some old) (py_get_default data k old) = Inr new"
    and "column_value rt old"
  shows "field_rule rt conv (data k) old new"
proof (cases "data k")
  case None
  with assms equals_loaded_refl [OF assms(2)] show ?thesis
    by (simp add: field_rule_def py_get_default_def store_column_def)
next
  case (Some x)
  with assms(1) show ?thesis
    by (simp add: field_rule_def py_get_default_def store_column_def split: if_splits)
qed

lemma store_column_str:
  assumes "store_column rt (store_text rt) (Some old) (py_get_default data k old) = Inr new"
  shows "\<forall>x. data k = Some (JStr x) \<longrightarrow> new = JStr x"
  using assms
  by (auto simp: py_get_default_def store_column_def split: if_splits)

text \<open>
  Claim C4, as amended. A successful Update replaces the order of the given id by an
  order in which each of \<open>order_number\<close>, \<open>rim_quantity\<close>, \<open>city\<close>, \<open>document_type\<close>,
  \<open>unit_price\<close>, \<open>status\<close> and \<open>notes\<close> is the stored value when the input has no such key,
  and otherwise the input's value as the column stores it, or the stored value when the
  input's value is equal to it; a string under a key of a text column is stored as
  given. \<open>total_price\<close> is treated as a field that was given the product of the
  \<open>rim_quantity\<close> and the \<open>unit_price\<close> the update assigned, the input's or else the stored
  ones, whether or not the input had them. Each of the five dates is the parsed input
  when the input's value is truthy and the stored value when it is absent, null or
  empty.
\<close>

theorem update_is_partial:
  assumes "update_order rt order_id data s = (s', Inr resp)"
  shows "\<exists>old new tp. get_or_404 s order_id = Inr old \<and> old \<in> set s \<and>
     s' = map (\<lambda>r. if id_pk r = order_id then new else r) s \<and>
     body resp = OneRecord (to_dict rt new) \<and>
     id_pk new = order_id \<and> id_pk old = order_id \<and>
     (stored_row rt old \<longrightarrow>
        field_rule rt (store_text rt) (data ''order_number'') (order_number old) (order_number new) \<and>
        field_rule rt (store_integer rt) (data ''rim_quantity'') (rim_quantity old)
          (rim_quantity new) \<and>
        field_rule rt (store_text rt) (data ''city'') (city old) (city new) \<and>
        field_rule rt (store_text rt) (data ''document_type'') (document_type old)
          (document_type new) \<and>
        field_rule rt (store_float rt) (data ''unit_price'') (unit_price old) (unit_price new) \<and>
        field_rule rt (store_text rt) (data ''status'') (status old) (status new) \<and>
        field_rule rt (store_text rt) (data ''notes'') (notes old) (notes new)) \<and>
     (\<forall>x. data ''order_number'' = Some (JStr x) \<longrightarrow> order_number new = JStr x) \<and>
     (\<forall>x. data ''city'' = Some (JStr x) \<longrightarrow> city new = JStr x) \<and>
     (\<forall>x. data ''document_type'' = Some (JStr x) \<longrightarrow> document_type new = JStr x) \<and>
     (\<forall>x. data ''status'' = Some (JStr x) \<longrightarrow> status new = JStr x) \<and>
     (\<forall>x. data ''notes'' = Some (JStr x) \<longrightarrow> notes new = JStr x) \<and>
     py_mul rt (py_get_default data ''rim_quantity'' (rim_quantity old))
       (py_get_default data ''unit_price'' (unit_price old)) = Inr tp \<and>
     field_rule rt (store_float rt) (Some tp) (total_price old) (total_price new) \<and>
     date_rule rt (data ''date'') (date old) (date new) \<and>
     date_rule rt (data ''entry_date'') (entry_date old) (entry_date new) \<and>
     date_rule rt (data ''print_deadline'') (print_deadline old) (print_deadline new) \<and>
     date_rule rt (data ''cek_date'') (cek_date old) (cek_date new) \<and>
     date_rule rt (data ''finish_date'') (finish_date old) (finish_date new)"
proof -
  from update_order_row [OF assms] obtain old o2 ob new where
    old: "get_or_404 s order_id = Inr old" and mem: "old \<in> set s"
    and id_old: "id_pk old = order_id"
    and o2: "update_basic rt data old = Inr o2"
    and ob: "update_dates rt data o2 = Inr ob"
    and new: "bind_row rt (Some old) ob = Inr new"
    and id: "id_pk new = order_id"
    and s': "s' = map (\<lambda>r. if id_pk r = order_id then new else r) s"
    and body: "body resp = OneRecord (to_dict rt new)"
    by (elim exE conjE)
  note att = update_attributes [OF o2 ob]
  from att have tp: "py_mul rt (py_get_default data ''rim_quantity'' (rim_quantity old))
       (py_get_default data ''unit_price'' (unit_price old)) = Inr (total_price ob)"
    by simp
  from bind_row_fields [OF new] att
  have cols: "store_column rt (store_text rt) (Some (order_number old))
        (py_get_default data ''order_number'' (order_number old)) = Inr (order_number new)"
    "store_column rt (store_integer rt) (Some (rim_quantity old))
        (py_get_default data ''rim_quantity'' (rim_quantity old)) = Inr (rim_quantity new)"
    "store_column rt (store_text rt) (Some (city old))
        (py_get_default data ''city'' (city old)) = Inr (city new)"
    "store_column rt (store_text rt) (Some (document_type old))
        (py_get_default data ''document_type'' (document_type old)) = Inr (document_type new)"
    "store_column rt (store_float rt) (Some (unit_price old))
        (py_get_default data ''unit_price'' (unit_price old)) = Inr (unit_price new)"
    "store_column rt (store_text rt) (Some (status old))
        (py_get_default data ''status'' (status old)) = Inr (status new)"
    "store_column rt (store_text rt) (Some (notes old))
        (py_get_default data ''notes'' (notes old)) = Inr (notes new)"
    and tt: "store_column rt (store_float rt) (Some (total_price old)) (total_price ob) =
        Inr (total_price new)"
    by simp_all
  have rules: "stored_row rt old \<longrightarrow>
        field_rule rt (store_text rt) (data ''order_number'') (order_number old) (order_number new) \<and>
        field_rule rt (store_integer rt) (data ''rim_quantity'') (rim_quantity old)
          (rim_quantity new) \<and>
        field_rule rt (store_text rt) (data ''city'') (city old) (city new) \<and>
        field_rule rt (store_text rt) (data ''document_type'') (document_type old)
          (document_type new) \<and>
        field_rule rt (store_float rt) (data ''unit_price'') (unit_price old) (unit_price new) \<and>
        field_rule rt (store_text rt) (data ''status'') (status old) (status new) \<and>
        field_rule rt (store_text rt) (data ''notes'') (notes old) (notes new)"
  proof
    assume "stored_row rt old"
    then have cv: "column_value rt (order_number old)" "column_value rt (rim_quantity old)"
      "column_value rt (city old)" "column_value rt (document_type old)"
      "column_value rt (unit_price old)" "column_value rt (status old)"
      "column_value rt (notes old)"
      by (simp_all add: stored_row_def)
    show "field_rule rt (store_text rt) (data ''order_number'') (order_number old) (order_number new) \<and>
        field_rule rt (store_integer rt) (data ''rim_quantity'') (rim_quantity old)
          (rim_quantity new) \<and>
        field_rule rt (store_text rt) (data ''city'') (city old) (city new) \<and>
        field_rule rt (store_text rt) (data ''document_type'') (document_type old)
          (document_type new) \<and>
        field_rule rt (store_float rt) (data ''unit_price'') (unit_price old) (unit_price new) \<and>
        field_rule rt (store_text rt) (data ''status'') (status old) (status new) \<and>
        field_rule rt (store_text rt) (data ''notes'') (notes old) (notes new)"
      by (intro conjI store_column_field_rule cols cv)
  qed
  from tt have total: "field_rule rt (store_float rt) (Some (total_price ob)) (total_price old)
      (total_price new)"
    by (auto simp: field_rule_def store_column_def split: if_splits)
  from bind_row_fields [OF new] att
  have dates: "date_rule rt (data ''date'') (date old) (date new)"
    "date_rule rt (data ''entry_date'') (entry_date old) (entry_date new)"
    "date_rule rt (data ''print_deadline'') (print_deadline old) (print_deadline new)"
    "date_rule rt (data ''cek_date'') (cek_date old) (cek_date new)"
    "date_rule rt (data ''finish_date'') (finish_date old) (finish_date new)"
    by simp_all
  note strs = store_column_str [OF cols(1)] store_column_str [OF cols(3)]
    store_column_str [OF cols(4)] store_column_str [OF cols(6)] store_column_str [OF cols(7)]
  from old mem s' body id id_old rules strs tp total dates show ?thesis
    by (intro exI [of _ old] exI [of _ new] exI [of _ "total_price ob"] conjI)
qed

theorem update_is_partial_witness:
  "update_order example_runtime 1 example_update [example_order] =
     ([example_updated],
      Inr \<lparr>status_code = 200, body = OneRecord (to_dict example_runtime example_updated)\<rparr>) \<and>
   stored_row example_runtime example_order \<and>
   field_rule example_runtime (store_integer example_runtime) (example_update ''rim_quantity'')
     (rim_quantity example_order) (rim_quantity example_updated) \<and>
   field_rule example_runtime (store_text example_runtime) (example_update ''city'')
     (city example_order) (city example_updated) \<and>
   date_rule example_runtime (example_update ''entry_date'') (entry_date example_order)
     (entry_date example_updated) \<and>
   date_rule example_runtime (example_update ''cek_date'') (cek_date example_order)
     (cek_date example_updated) \<and>
   rim_quantity example_updated = JInt 3 \<and> city example_updated = city example_order \<and>
   total_price example_updated = JFloat 15 \<and>
   entry_date example_updated = entry_date example_order \<and>
   cek_date example_updated =
     Some \<lparr>year = 2024, month = 6, day = 1, hour = 0, minute = 0, second = 0, microsecond = 0\<rparr>"
proof -
  have upd: "update_order example_runtime 1 example_update [example_order] =
     ([example_updated],
      Inr \<lparr>status_code = 200, body = OneRecord (to_dict example_runtime example_updated)\<rparr>)"
    by code_simp
  have loaded: "get_or_404 [example_order] 1 = Inr example_order"
    by (simp add: get_or_404_def int64_def example_order_def)
  have stored: "stored_row example_runtime example_order"
    by (simp add: stored_row_def column_value_def example_order_def example_runtime_def)
  from update_is_partial [OF upd] obtain old new where
    old: "get_or_404 [example_order] 1 = Inr old"
    and s': "[example_updated] = map (\<lambda>r. if id_pk r = 1 then new else r) [example_order]"
    and rules: "stored_row example_runtime old \<longrightarrow>
        field_rule example_runtime (store_text example_runtime) (example_update ''order_number'')
          (order_number old) (order_number new) \<and>
        field_rule example_runtime (store_integer example_runtime) (example_update ''rim_quantity'')
          (rim_quantity old) (rim_quantity new) \<and>
        field_rule example_runtime (store_text example_runtime) (example_update ''city'')
          (city old) (city new) \<and>
        field_rule example_runtime (store_text example_runtime) (example_update ''document_type'')
          (document_type old) (document_type new) \<and>
        field_rule example_runtime (store_float example_runtime) (example_update ''unit_price'')
          (unit_price old) (unit_price new) \<and>
        field_rule example_runtime (store_text example_runtime) (example_update ''status'')
          (status old) (status new) \<and>
        field_rule example_runtime (store_text example_runtime) (example_update ''notes'')
          (notes old) (notes new)"
    and d1: "date_rule example_runtime (example_update ''entry_date'') (entry_date old)
      (entry_date new)"
    and d2: "date_rule example_runtime (example_update ''cek_date'') (cek_date old) (cek_date new)"
    by (elim exE conjE)
  from old loaded have o: "old = example_order" by simp
  from s' have n: "new = example_updated" by (simp add: example_order_def)
  note all = rules [unfolded o n, THEN mp, OF stored]
  have r1: "field_rule example_runtime (store_integer example_runtime)
     (example_update ''rim_quantity'') (rim_quantity example_order) (rim_quantity example_updated)"
    using all by (elim conjE)
  have r2: "field_rule example_runtime (store_text example_runtime) (example_update ''city'')
     (city example_order) (city example_updated)"
    using all by (elim conjE)
  from d1 d2
  have d: "date_rule example_runtime (example_update ''entry_date'') (entry_date example_order)
     (entry_date example_updated)"
    "date_rule example_runtime (example_update ''cek_date'') (cek_date example_order)
     (cek_date example_updated)"
    unfolding o n by simp_all
  have vals: "rim_quantity example_updated = JInt 3" "city example_updated = city example_order"
    "total_price example_updated = JFloat 15"
    "entry_date example_updated = entry_date example_order"
    "cek_date example_updated =
      Some \<lparr>year = 2024, month = 6, day = 1, hour = 0, minute = 0, second = 0, microsecond = 0\<rparr>"
    by (simp_all add: example_updated_def)
  from upd stored r1 r2 d vals show ?thesis by (intro conjI)
qed

text \<open>
  Claim C4 as stated fails in two ways, both for want of a validation. A value of the
  input that is not of the column's type is not what the field holds afterwards: an
  Update of the example order with \<open>city\<close> 5 stores the text \<open>"5"\<close>, and one with
  \<open>unit_price\<close> \<open>"7"\<close> stores the \<open>unit_price\<close> 7.0 and, as \<open>total_price\<close>, the float of the
  text repeated 10 times. And an Update can fail, in which case no field of the input
  overwrites anything: with \<open>city\<close> null the commit raises \<open>IntegrityError\<close> and the order
  keeps its city.
\<close>

theorem update_converts_or_fails:
  "update_order example_runtime 1 [''city'' \<mapsto> JInt 5] [example_order] =
     ([example_order\<lparr>city := JStr ''5''\<rparr>],
      Inr \<lparr>status_code = 200,
           body = OneRecord (to_dict example_runtime (example_order\<lparr>city := JStr ''5''\<rparr>))\<rparr>) \<and>
   city (example_order\<lparr>city := JStr ''5''\<rparr>) \<noteq> JInt 5 \<and>
   update_order example_runtime 1 [''unit_price'' \<mapsto> JStr ''7''] [example_order] =
     ([example_order\<lparr>unit_price := JFloat 7, total_price := JFloat 7777777777\<rparr>],
      Inr \<lparr>status_code = 200,
           body = OneRecord (to_dict example_runtime
             (example_order\<lparr>unit_price := JFloat 7, total_price := JFloat 7777777777\<rparr>))\<rparr>) \<and>
   unit_price (example_order\<lparr>unit_price := JFloat 7, total_price := JFloat 7777777777\<rparr>) \<noteq>
     JStr ''7'' \<and>
   update_order example_runtime 1 [''city'' \<mapsto> JNull] [example_order] =
     ([example_order], Inl IntegrityError) \<and>
   city example_order \<noteq> JNull"
  by (intro conjI; code_simp)


section \<open>Reading back a created order\<close>

text \<open>
  Claim C8 at the input of the specification's example with the date \<open>0999-01-01\<close>, on
  a platform whose C library does not pad the year (CPython 3.11 with glibc). The Create
  succeeds, and Read returns exactly the record that the Create returned; but the date
  of that record is the text \<open>999-01-01\<close>, which is not of the shape YYYY-MM-DD and which
  \<open>strptime\<close> with the same format rejects.
\<close>

theorem year_below_1000_is_not_padded:
  "add_order example_runtime example_now (example_input(''date'' \<mapsto> JStr ''0999-01-01'')) [] =
     ([example_order\<lparr>date := Some \<lparr>year = 999, month = 1, day = 1, hour = 0, minute = 0,
         second = 0, microsecond = 0\<rparr>\<rparr>],
      Inr \<lparr>status_code = 201,
           body = OneRecord (to_dict example_runtime
             (example_order\<lparr>date := Some \<lparr>year = 999, month = 1, day = 1, hour = 0, minute = 0,
                second = 0, microsecond = 0\<rparr>\<rparr>))\<rparr>) \<and>
   body (get_orders example_runtime
     [example_order\<lparr>date := Some \<lparr>year = 999, month = 1, day = 1, hour = 0, minute = 0,
        second = 0, microsecond = 0\<rparr>\<rparr>]) =
     RecordList [to_dict example_runtime
       (example_order\<lparr>date := Some \<lparr>year = 999, month = 1, day = 1, hour = 0, minute = 0,
          second = 0, microsecond = 0\<rparr>\<rparr>)] \<and>
   map_of (to_dict example_runtime
     (example_order\<lparr>date := Some \<lparr>year = 999, month = 1, day = 1, hour = 0, minute = 0,
        second = 0, microsecond = 0\<rparr>\<rparr>)) ''date'' = Some (JStr ''999-01-01'') \<and>
   \<not> iso_date ''999-01-01'' \<and>
   strptime ''999-01-01'' = Inl ValueError"
  by (intro conjI; code_simp)

section \<open>The export of no orders\<close>

text \<open>
  Claim C5 at \<open>N = 0\<close>. A \<open>DataFrame\<close> made from the empty list of records has no
  column, so \<open>to_excel\<close> writes no cell and the two loops of the handler over the columns
  do nothing: the sheet \<open>Orders\<close> of the workbook has no row, no header cell and no
  column width, where the claim has one header row. With one order stored the sheet has
  the two rows the claim says, the header in the handler's format.
\<close>

theorem export_of_no_orders_has_no_header:
  "export_to_excel example_runtime [] = [(''Orders'', empty_worksheet)] \<and>
   n_rows (snd (hd (export_to_excel example_runtime []))) = 0 \<and>
   cell_at (snd (hd (export_to_excel example_runtime []))) 0 0 = None \<and>
   width_of (snd (hd (export_to_excel example_runtime []))) 0 = None \<and>
   n_rows (snd (hd (export_to_excel example_runtime [example_order]))) = 2 \<and>
   cell_at (snd (hd (export_to_excel example_runtime [example_order]))) 0 0 =
     Some (JStr ''id'', Some header_format)"
  by (intro conjI; code_simp)

end
